theory Spec2Isabelle
  imports Complex_Main "HOL-Library.AList"
begin

section \<open>Values, arrays and data frames\<close>

text \<open>
  The two scripts under \<^verbatim>\<open>src/timeGAN\<close> sequence calls to modules that are not among the
  sources: the GAN trainer \<^verbatim>\<open>timegan\<close> and the data utilities of
  \<^verbatim>\<open>own_data_loading_MonthlyMilkProduction\<close>, and the libraries optuna, sdv,
  table_evaluator, pandas and joblib. What the scripts need of them is either a parameter
  of the model (the record \<open>env\<close> below) or a small definition whose comment says what it
  stands for.

  Python values that end up in the hyperparameter dictionary are strings or integers.
  A dictionary is an association list in insertion order, updated with \<open>AList.update\<close>.
  Exceptions are values of the type \<open>error\<close>; a pure function that may raise returns
  \<open>error + 'a\<close>, and one that works on the state of the process returns the exception
  together with the state at the raise. Scores are real numbers (a NaN score is outside the
  model).
\<close>

datatype pyval = PyStr string | PyInt int

type_synonym pydict = "(string \<times> pyval) list"

datatype error =
    ValueError | FileNotFoundError | AttributeError | UnpicklingError | RuntimeError

text \<open>A three-dimensional numpy array, as nested lists: axis 0, axis 1, axis 2.\<close>

type_synonym ndarray3 = "real list list list"

text \<open>\<^verbatim>\<open>np.shape(a)[0]\<close> and \<^verbatim>\<open>np.shape(a)[1]\<close>. The nested list of an array with a zero
  axis has lost the later extents; the loops below never read them then.\<close>

definition shape0 :: "ndarray3 \<Rightarrow> nat" where
  "shape0 a = length a"

definition shape1 :: "ndarray3 \<Rightarrow> nat" where
  "shape1 a = (case a of [] \<Rightarrow> 0 | m # _ \<Rightarrow> length m)"

text \<open>The array \<open>a\<close> has shape \<open>(n, s, c)\<close>.\<close>

definition has_shape :: "nat \<Rightarrow> nat \<Rightarrow> nat \<Rightarrow> ndarray3 \<Rightarrow> bool" where
  "has_shape n s c a \<longleftrightarrow>
     length a = n \<and> list_all (\<lambda>m. length m = s \<and> list_all (\<lambda>r. length r = c) m) a"

text \<open>Python's slice \<^verbatim>\<open>xs[:stop]\<close>: a negative \<open>stop\<close> counts from the end, and both
  ends are clamped to the list.\<close>

definition py_slice_upto :: "int \<Rightarrow> 'a list \<Rightarrow> 'a list" where
  "py_slice_upto stop xs =
     (if stop < 0 then take (nat (int (length xs) + stop)) xs else take (nat stop) xs)"

record DataFrame =
  df_columns :: "string list"
  df_rows :: "real list list"

text \<open>\<^verbatim>\<open>pd.DataFrame(data=rows, columns=columns)\<close> for a list of one-dimensional rows:
  pandas raises \<^verbatim>\<open>ValueError\<close> when a row's width is not the number of column labels.\<close>

definition pd_DataFrame :: "real list list \<Rightarrow> string list \<Rightarrow> error + DataFrame" where
  "pd_DataFrame data cols =
     (if list_all (\<lambda>r. length r = length cols) data
      then Inr \<lparr>df_columns = cols, df_rows = data\<rparr>
      else Inl ValueError)"

section \<open>postprocess\_data\<close>

text \<open>
  \<^verbatim>\<open>postprocess_data(eval_or_opt, generated_data, columns, seq_len, *shift_numbers)\<close>.
  The tuple \<open>shift_numbers\<close> is an \<open>int list\<close>. The two nested \<^verbatim>\<open>for\<close> loops over
  \<^verbatim>\<open>range(np.shape(generated_data)[0])\<close> and \<^verbatim>\<open>range(np.shape(generated_data)[1])\<close>
  append \<^verbatim>\<open>generated_data[i,j,:]\<close>.
\<close>

definition postprocess_data ::
  "string \<Rightarrow> ndarray3 \<Rightarrow> string list \<Rightarrow> pyval \<Rightarrow> int list \<Rightarrow> error + DataFrame" where
  "postprocess_data eval_or_opt generated_data cols seq_len shift_numbers =
     (let generated_data =
            (if shift_numbers \<noteq> [0]
             then map (map (py_slice_upto (int (length shift_numbers) * - 1))) generated_data
             else generated_data);
          conditioned_dataset =
            concat (map (\<lambda>i. map (\<lambda>j. generated_data ! i ! j) [0..<shape1 generated_data])
                        [0..<shape0 generated_data])
      in pd_DataFrame conditioned_dataset cols)"

text \<open>The number of feature columns that are kept.\<close>

definition kept_width :: "int list \<Rightarrow> nat \<Rightarrow> nat" where
  "kept_width shift_numbers c = (if shift_numbers = [0] then c else c - length shift_numbers)"

section \<open>The external libraries and the state of the process\<close>

text \<open>A trial as the objective sees it (\<^verbatim>\<open>trial.number\<close>, \<^verbatim>\<open>trial.params\<close>), and a
  trial as the study keeps it; \<open>ft_value = None\<close> is a trial that is not complete.\<close>

record trial =
  number :: nat
  params :: pydict

record frozen_trial =
  ft_number :: nat
  ft_params :: pydict
  ft_value :: "real option"

text \<open>
  The black boxes of the optimisation script. \<open>sampler\<close> is optuna's sampler: the number
  it returns for a trial number and a parameter name selects the suggested value from the
  domain given at the call. \<open>timegan\<close>, \<open>evaluate\<close> and \<open>cut_data\<close> are the GAN trainer, the
  sdv scorer (with its default \<^verbatim>\<open>aggregate=True\<close>) and the windowing utility, taken as
  functions of their arguments. \<open>evaluate_table\<close> is the scorer with \<^verbatim>\<open>aggregate=False\<close>
  and \<open>load_data\<close> is table_evaluator's loader, which may raise. \<open>plot\<close> is one of optuna's
  plotting functions, called by its name on the trials of the study: it returns (\<open>None\<close>)
  or raises.
\<close>

record env =
  sampler :: "nat \<Rightarrow> string \<Rightarrow> nat"
  timegan :: "ndarray3 \<Rightarrow> pydict \<Rightarrow> ndarray3"
  evaluate :: "DataFrame \<Rightarrow> DataFrame \<Rightarrow> real"
  cut_data :: "DataFrame \<Rightarrow> pyval \<Rightarrow> ndarray3"
  real_data_loading :: "DataFrame"
  preprocess_data ::
    "DataFrame \<Rightarrow> string \<Rightarrow> int list \<Rightarrow>
       DataFrame \<times> string list \<times> DataFrame \<times> DataFrame \<times> int list"
  evaluate_table :: "DataFrame \<Rightarrow> DataFrame \<Rightarrow> (string \<times> real) list"
  load_data :: "string \<Rightarrow> string \<Rightarrow> error + (DataFrame \<times> DataFrame)"
  plot :: "string \<Rightarrow> frozen_trial list \<Rightarrow> error option"

datatype perf_item =
    PerfParams pydict | PerfValue real | PerfTrial frozen_trial | PerfMinutes

datatype file_content = JoblibTimegan | CsvFile DataFrame | TextFile "perf_item list" | OtherFile

text \<open>What the script does to the outside, in the order in which it does it.\<close>

datatype event =
    StudyStop
  | Suggest string pyval
  | CutData DataFrame pyval
  | PrintShape ndarray3
  | PrintVal pyval
  | Timegan ndarray3 pydict
  | Evaluate DataFrame DataFrame
  | JoblibDump string
  | TrialFinished nat real
  | Plot string
  | JoblibLoad string
  | ToCsv string

text \<open>
  The state that the script reads and writes: the module's global \<^verbatim>\<open>best_scores\<close>, the two
  attributes \<^verbatim>\<open>objective.seq_len\<close> and \<^verbatim>\<open>objective.parameters\<close> (\<open>None\<close> while the
  attribute does not exist), the files of the working directory, the study object
  (\<open>stop_flag\<close>, and \<open>study_trials\<close>, the trials of the study
  \<^verbatim>\<open>database_name + "_study"\<close> in its sqlite storage), and the trace of events.
\<close>

record pstate =
  best_scores :: real
  objective_seq_len :: "pyval option"
  objective_parameters :: "pydict option"
  files :: "string \<Rightarrow> file_content option"
  stop_flag :: bool
  study_trials :: "frozen_trial list"
  trace :: "event list"

text \<open>A process that has just imported the module (line 51: \<^verbatim>\<open>best_scores = 0\<close>), in a
  directory with the files \<open>fs\<close> and a storage that holds the trials \<open>stored\<close>.\<close>

definition fresh_process :: "(string \<Rightarrow> file_content option) \<Rightarrow> frozen_trial list \<Rightarrow> pstate" where
  "fresh_process fs stored =
     \<lparr>best_scores = 0, objective_seq_len = None, objective_parameters = None,
      files = fs, stop_flag = False, study_trials = stored, trace = []\<rparr>"

definition emit :: "event \<Rightarrow> pstate \<Rightarrow> pstate" where
  "emit e st = st\<lparr>trace := trace st @ [e]\<rparr>"

section \<open>The optimisation library\<close>

text \<open>
  Modelled from the spec: the optimisation driver (optuna) is not among the sources; it
  ``proposes candidate parameter sets from fixed categorical/integer domains, records trial
  outcomes, supports persistence and early stopping''.
  \<^verbatim>\<open>trial.suggest_categorical(name, choices)\<close> returns one of \<open>choices\<close> and records it
  in \<^verbatim>\<open>trial.params\<close>; \<^verbatim>\<open>trial.suggest_int(name, low, high, step)\<close> returns one of
  \<open>low, low + step, \<dots>\<close> up to \<open>high\<close>. Which one is the sampler's choice.
\<close>

definition pick :: "env \<Rightarrow> nat \<Rightarrow> string \<Rightarrow> pyval list \<Rightarrow> pyval" where
  "pick E n name choices = choices ! (sampler E n name mod length choices)"

definition pick_int :: "env \<Rightarrow> nat \<Rightarrow> string \<Rightarrow> int \<Rightarrow> int \<Rightarrow> int \<Rightarrow> pyval" where
  "pick_int E n name low high step =
     PyInt (low + step * int (sampler E n name mod nat ((high - low) div step + 1)))"

definition suggest_categorical ::
  "env \<Rightarrow> string \<Rightarrow> pyval list \<Rightarrow> trial \<Rightarrow> pstate \<Rightarrow> pyval \<times> trial \<times> pstate" where
  "suggest_categorical E name choices tr st =
     (let v = pick E (number tr) name choices
      in (v, tr\<lparr>params := AList.update name v (params tr)\<rparr>, emit (Suggest name v) st))"

definition suggest_int ::
  "env \<Rightarrow> string \<Rightarrow> int \<Rightarrow> int \<Rightarrow> int \<Rightarrow> trial \<Rightarrow> pstate \<Rightarrow> pyval \<times> trial \<times> pstate" where
  "suggest_int E name low high step tr st =
     (let v = pick_int E (number tr) name low high step
      in (v, tr\<lparr>params := AList.update name v (params tr)\<rparr>, emit (Suggest name v) st))"

text \<open>Modelled from the spec: early stopping. After \<^verbatim>\<open>study.stop()\<close> the optimisation loop
  ends when the running trial has finished.\<close>

definition study_stop :: "pstate \<Rightarrow> pstate" where
  "study_stop st = emit StudyStop (st\<lparr>stop_flag := True\<rparr>)"

text \<open>
  Modelled from the spec: ``run N trials and keep the best'', with early stopping and a
  persistent record of the trials. \<^verbatim>\<open>study.optimize(func, n_trials)\<close> runs sequentially,
  with the default \<^verbatim>\<open>catch=()\<close>: an exception of the objective ends the call. A new
  trial's number is the number of trials the study holds. The loop is left when the stop
  flag is set or \<open>n_trials\<close> trials have run; the flag is cleared when the call starts.
\<close>

fun optimize_loop ::
  "(trial \<Rightarrow> pstate \<Rightarrow> (error \<times> pstate) + (real \<times> trial \<times> pstate)) \<Rightarrow> nat \<Rightarrow> pstate \<Rightarrow>
     (error \<times> pstate) + pstate" where
  "optimize_loop func 0 st = Inr st"
| "optimize_loop func (Suc k) st =
     (if stop_flag st then Inr st
      else (case func \<lparr>number = length (study_trials st), params = []\<rparr> st of
              Inl e \<Rightarrow> Inl e
            | Inr (v, tr, st') \<Rightarrow>
                optimize_loop func k
                  (emit (TrialFinished (number tr) v)
                     (st'\<lparr>study_trials := study_trials st' @
                            [\<lparr>ft_number = number tr, ft_params = params tr, ft_value = Some v\<rparr>]\<rparr>))))"

definition optimize ::
  "(trial \<Rightarrow> pstate \<Rightarrow> (error \<times> pstate) + (real \<times> trial \<times> pstate)) \<Rightarrow> int \<Rightarrow> pstate \<Rightarrow>
     (error \<times> pstate) + pstate" where
  "optimize func n_trials st = optimize_loop func (nat n_trials) (st\<lparr>stop_flag := False\<rparr>)"

text \<open>Modelled from the spec: the driver keeps the best of the recorded trials.
  \<^verbatim>\<open>study.best_trial\<close> for \<^verbatim>\<open>direction="maximize"\<close> is a complete trial of the highest
  value (here the earliest of them), and \<^verbatim>\<open>ValueError\<close> when no trial is complete.\<close>

definition best_trial :: "frozen_trial list \<Rightarrow> error + frozen_trial" where
  "best_trial ts =
     (case filter (\<lambda>t. ft_value t \<noteq> None) ts of
        [] \<Rightarrow> Inl ValueError
      | c # cs \<Rightarrow> Inr (fold (\<lambda>t b. if the (ft_value b) < the (ft_value t) then t else b) cs c))"

section \<open>objective\<close>

text \<open>
  \<^verbatim>\<open>objective(trial, dataset_train, dataset_val, num_samples, columns, database_name,
  *shift_numbers)\<close>, lines 53 to 109. It returns the score, and the trial and the state as
  it leaves them; the one exception it can raise is the \<^verbatim>\<open>ValueError\<close> of
  \<open>postprocess_data\<close>. \<open>state_after\<close> reads the state a call has left, raised or returned.
\<close>

definition objective ::
  "env \<Rightarrow> trial \<Rightarrow> DataFrame \<Rightarrow> DataFrame \<Rightarrow> int \<Rightarrow> string list \<Rightarrow> string \<Rightarrow> int list \<Rightarrow>
     pstate \<Rightarrow> (error \<times> pstate) + (real \<times> trial \<times> pstate)" where
  "objective E trial dataset_train dataset_val num_samples cols database_name shift_numbers st =
     (let st = (if number trial = 60 then study_stop st else st);
          (module, trial, st) =
             suggest_categorical E ''module'' [PyStr ''gru'', PyStr ''lstm'', PyStr ''lstmLN''] trial st;
          (hidden_dim, trial, st) =
             suggest_categorical E ''hidden_dim'' [PyInt 6, PyInt 12, PyInt 24, PyInt 48] trial st;
          (batch_size, trial, st) =
             suggest_categorical E ''batch_size'' [PyInt 2, PyInt 4, PyInt 8] trial st;
          (num_layer, trial, st) = suggest_int E ''num_layer'' 3 6 1 trial st;
          (iterations, trial, st) =
             suggest_categorical E ''iterations'' [PyInt 100, PyInt 1000, PyInt 10000] trial st;
          (seq_len, trial, st) =
             suggest_categorical E ''seq_len'' [PyInt 1, PyInt 5, PyInt 10] trial st;
          data = cut_data E dataset_train seq_len;
          st = emit (CutData dataset_train seq_len) st;
          parameters = [];
          parameters = AList.update ''module'' module parameters;
          parameters = AList.update ''hidden_dim'' hidden_dim parameters;
          parameters = AList.update ''num_layer'' num_layer parameters;
          parameters = AList.update ''iterations'' iterations parameters;
          parameters = AList.update ''batch_size'' batch_size parameters;
          parameters = AList.update ''seq_len'' seq_len parameters;
          st = emit (PrintShape data) st;
          st = emit (PrintVal seq_len) st;
          st = emit (PrintVal batch_size) st;
          generated_data = timegan E data parameters;
          st = emit (Timegan data parameters) st
      in case postprocess_data ''opt'' generated_data cols seq_len shift_numbers of
           Inl e \<Rightarrow> Inl (e, st)
         | Inr fake_data \<Rightarrow>
             (let scores = evaluate E fake_data dataset_val;
                  st = emit (Evaluate fake_data dataset_val) st;
                  st = (if scores > best_scores st
                        then (emit (JoblibDump (database_name @ ''.gz'')) st)
                               \<lparr>files := (files st)(database_name @ ''.gz'' \<mapsto> JoblibTimegan),
                                objective_seq_len := Some seq_len,
                                objective_parameters := Some parameters,
                                best_scores := scores\<rparr>
                        else st)
              in Inr (scores, trial, st)))"

definition state_after :: "(error \<times> pstate) + (real \<times> trial \<times> pstate) \<Rightarrow> pstate" where
  "state_after r = (case r of Inl (e, st) \<Rightarrow> st | Inr (v, tr, st) \<Rightarrow> st)"

section \<open>run\_TimeGAN\<close>

text \<open>
  \<^verbatim>\<open>run_TimeGAN(num_samples, n_trials, database_name, *shift_numbers)\<close>, lines 112 to 161.
  \<^verbatim>\<open>create_study\<close> with \<^verbatim>\<open>load_if_exists=True\<close> takes the study as the storage
  holds it. The file written by \<^verbatim>\<open>joblib.dump(timegan, \<dots>)\<close> holds the function
  \<^verbatim>\<open>timegan\<close>; \<^verbatim>\<open>joblib.load\<close> of it gives that function back. The file
  \<^verbatim>\<open>performance_<database_name>.txt\<close> is opened, and so emptied, before the study is asked
  for its best trial; what is written to it is kept as a list of items. The six plotting
  calls of lines 141 to 147 are made in their order by \<open>plots\<close>; the first of them that
  raises ends the run, before the checkpoint is loaded.
\<close>

definition plot_names :: "string list" where
  "plot_names = [''optimization_history'', ''parallel_coordinate'', ''contour'', ''slice'',
                 ''param_importances'', ''edf'']"

fun plots :: "env \<Rightarrow> string list \<Rightarrow> pstate \<Rightarrow> (error \<times> pstate) + pstate" where
  "plots E [] st = Inr st"
| "plots E (name # names) st =
     (case plot E name (study_trials st) of
        Some e \<Rightarrow> Inl (e, st)
      | None \<Rightarrow> plots E names (emit (Plot name) st))"

definition joblib_load :: "pstate \<Rightarrow> string \<Rightarrow> error + (env \<Rightarrow> ndarray3 \<Rightarrow> pydict \<Rightarrow> ndarray3)" where
  "joblib_load st name =
     (case files st name of
        None \<Rightarrow> Inl FileNotFoundError
      | Some JoblibTimegan \<Rightarrow> Inr timegan
      | Some _ \<Rightarrow> Inl UnpicklingError)"

definition run_TimeGAN ::
  "env \<Rightarrow> int \<Rightarrow> int \<Rightarrow> string \<Rightarrow> int list \<Rightarrow> pstate \<Rightarrow> (error \<times> pstate) + pstate" where
  "run_TimeGAN E num_samples n_trials database_name shift_numbers st =
     (let dataset = real_data_loading E;
          (dataset_train, cols, dataset_val, dataset, shift_numbers) =
             preprocess_data E dataset database_name shift_numbers
      in case optimize
                (\<lambda>trial. objective E trial dataset_train dataset_val num_samples cols
                            database_name shift_numbers)
                n_trials st of
           Inl e \<Rightarrow> Inl e
         | Inr st \<Rightarrow>
        (let st = st\<lparr>files := (files st)(''performance_'' @ database_name @ ''.txt'' \<mapsto>
                                   TextFile [])\<rparr>
         in case best_trial (study_trials st) of
           Inl e \<Rightarrow> Inl (e, st)
         | Inr best \<Rightarrow>
        (let performance = [PerfParams (ft_params best), PerfValue (the (ft_value best)),
                            PerfTrial best];
             st = st\<lparr>files := (files st)(''performance_'' @ database_name @ ''.txt'' \<mapsto>
                                   TextFile performance)\<rparr>
         in case plots E plot_names st of
              Inl x \<Rightarrow> Inl x
            | Inr st \<Rightarrow>
           (case joblib_load st (database_name @ ''.gz'') of
              Inl e \<Rightarrow> Inl (e, st)
            | Inr timegan_loaded \<Rightarrow>
           (let st = emit (JoblibLoad (database_name @ ''.gz'')) st
            in case objective_seq_len st of
                 None \<Rightarrow> Inl (AttributeError, st)
               | Some seq_len \<Rightarrow>
              (let data = cut_data E dataset seq_len;
                   st = emit (CutData dataset seq_len) st
               in case objective_parameters st of
                    None \<Rightarrow> Inl (AttributeError, st)
                  | Some parameters \<Rightarrow>
                 (let generated_data = timegan_loaded E data parameters;
                      st = emit (Timegan data parameters) st;
                      st = st\<lparr>files := (files st)(''performance_'' @ database_name @ ''.txt'' \<mapsto>
                                            TextFile (performance @ [PerfMinutes]))\<rparr>
                  in case postprocess_data ''eval'' generated_data cols seq_len shift_numbers of
                       Inl e \<Rightarrow> Inl (e, st)
                     | Inr fake_data \<Rightarrow>
                         Inr ((emit (ToCsv (''fake_data_'' @ database_name @ ''.csv'')) st)
                                \<lparr>files := (files st)(''fake_data_'' @ database_name @ ''.csv'' \<mapsto>
                                            CsvFile fake_data)\<rparr>))))))))"

section \<open>test\_samples\<close>

text \<open>
  \<^verbatim>\<open>test_samples(database_name, print_data=False)\<close> of
  \<^verbatim>\<open>evaluate_schachtschneider.py\<close>. The result is what the call prints and which calls of
  table_evaluator it makes, in order.
\<close>

datatype ts_event =
    PrintFrame DataFrame
  | TableEvaluator DataFrame DataFrame "string list"
  | VisualEvaluation
  | TableEvaluate string string
  | PrintScores "(string \<times> real) list"

definition test_samples :: "env \<Rightarrow> string \<Rightarrow> bool \<Rightarrow> error + ts_event list" where
  "test_samples E database_name print_data =
     (case load_data E ''test_data_schachtschneider.csv''
             (''fake_data_'' @ database_name @ ''.csv'') of
        Inl e \<Rightarrow> Inl e
      | Inr (test, fake) \<Rightarrow>
          (let out = [];
               out = (if print_data then out @ [PrintFrame fake] else out);
               out = (if print_data then out @ [PrintFrame test] else out);
               cat_cols = [''public_holiday'', ''weekday''];
               out = out @ [TableEvaluator test fake cat_cols];
               out = out @ [VisualEvaluation];
               out = out @ [TableEvaluate ''Lavandula'' ''regr''];
               out = out @ [PrintScores (evaluate_table E fake test)]
           in Inr out))"

text \<open>The events of \<open>test_samples\<close> other than the printing of a loaded data set: the calls
  of table_evaluator and the printing of the scores.\<close>

fun is_evaluation :: "ts_event \<Rightarrow> bool" where
  "is_evaluation (PrintFrame d) = False"
| "is_evaluation e = True"

section \<open>What a trial computes\<close>

text \<open>
  Names for the values that \<open>objective\<close> computes in the trial with number \<open>n\<close>, in the
  order of its lines: the six suggestions (what \<^verbatim>\<open>trial.params\<close> receives), the suggested
  sequence length, the dictionary \<^verbatim>\<open>parameters\<close> as lines 81 to 87 fill it, the windowed
  training data, the postprocessed output of the trainer, and the events up to the call of
  the trainer. The lemma \<open>objective_unfold\<close> below proves that \<open>objective\<close> computes them.
\<close>

definition emits :: "event list \<Rightarrow> pstate \<Rightarrow> pstate" where
  "emits es st = st\<lparr>trace := trace st @ es\<rparr>"

definition trial_suggestions :: "env \<Rightarrow> nat \<Rightarrow> pydict" where
  "trial_suggestions E n =
     [(''module'', pick E n ''module'' [PyStr ''gru'', PyStr ''lstm'', PyStr ''lstmLN'']),
      (''hidden_dim'', pick E n ''hidden_dim'' [PyInt 6, PyInt 12, PyInt 24, PyInt 48]),
      (''batch_size'', pick E n ''batch_size'' [PyInt 2, PyInt 4, PyInt 8]),
      (''num_layer'', pick_int E n ''num_layer'' 3 6 1),
      (''iterations'', pick E n ''iterations'' [PyInt 100, PyInt 1000, PyInt 10000]),
      (''seq_len'', pick E n ''seq_len'' [PyInt 1, PyInt 5, PyInt 10])]"

definition trial_seq_len :: "env \<Rightarrow> nat \<Rightarrow> pyval" where
  "trial_seq_len E n = pick E n ''seq_len'' [PyInt 1, PyInt 5, PyInt 10]"

definition trial_parameters :: "env \<Rightarrow> nat \<Rightarrow> pydict" where
  "trial_parameters E n =
     [(''module'', pick E n ''module'' [PyStr ''gru'', PyStr ''lstm'', PyStr ''lstmLN'']),
      (''hidden_dim'', pick E n ''hidden_dim'' [PyInt 6, PyInt 12, PyInt 24, PyInt 48]),
      (''num_layer'', pick_int E n ''num_layer'' 3 6 1),
      (''iterations'', pick E n ''iterations'' [PyInt 100, PyInt 1000, PyInt 10000]),
      (''batch_size'', pick E n ''batch_size'' [PyInt 2, PyInt 4, PyInt 8]),
      (''seq_len'', trial_seq_len E n)]"

definition trial_data :: "env \<Rightarrow> DataFrame \<Rightarrow> nat \<Rightarrow> ndarray3" where
  "trial_data E dataset_train n = cut_data E dataset_train (trial_seq_len E n)"

definition trial_fake ::
  "env \<Rightarrow> DataFrame \<Rightarrow> string list \<Rightarrow> int list \<Rightarrow> nat \<Rightarrow> error + DataFrame" where
  "trial_fake E dataset_train cols shift_numbers n =
     postprocess_data ''opt'' (timegan E (trial_data E dataset_train n) (trial_parameters E n))
       cols (trial_seq_len E n) shift_numbers"

definition trial_events :: "env \<Rightarrow> DataFrame \<Rightarrow> nat \<Rightarrow> event list" where
  "trial_events E dataset_train n =
     (if n = 60 then [StudyStop] else []) @
     map (\<lambda>(name, v). Suggest name v) (trial_suggestions E n) @
     [CutData dataset_train (trial_seq_len E n),
      PrintShape (trial_data E dataset_train n),
      PrintVal (trial_seq_len E n),
      PrintVal (pick E n ''batch_size'' [PyInt 2, PyInt 4, PyInt 8]),
      Timegan (trial_data E dataset_train n) (trial_parameters E n)]"

definition trial_state :: "env \<Rightarrow> DataFrame \<Rightarrow> nat \<Rightarrow> pstate \<Rightarrow> pstate" where
  "trial_state E dataset_train n st =
     emits (trial_events E dataset_train n) (if n = 60 then st\<lparr>stop_flag := True\<rparr> else st)"

text \<open>The events that a call has added to the trace, and what they hold.\<close>

definition new_events :: "pstate \<Rightarrow> pstate \<Rightarrow> event list" where
  "new_events st st' = drop (length (trace st)) (trace st')"

fun suggestions_of :: "event list \<Rightarrow> (string \<times> pyval) list" where
  "suggestions_of [] = []"
| "suggestions_of (Suggest name v # es) = (name, v) # suggestions_of es"
| "suggestions_of (e # es) = suggestions_of es"

fun timegan_calls :: "event list \<Rightarrow> (ndarray3 \<times> pydict) list" where
  "timegan_calls [] = []"
| "timegan_calls (Timegan data p # es) = (data, p) # timegan_calls es"
| "timegan_calls (e # es) = timegan_calls es"

fun evaluate_calls :: "event list \<Rightarrow> (DataFrame \<times> DataFrame) list" where
  "evaluate_calls [] = []"
| "evaluate_calls (Evaluate fake val # es) = (fake, val) # evaluate_calls es"
| "evaluate_calls (e # es) = evaluate_calls es"

fun dumps :: "event list \<Rightarrow> string list" where
  "dumps [] = []"
| "dumps (JoblibDump name # es) = name # dumps es"
| "dumps (e # es) = dumps es"

text \<open>The five steps of a trial that the specification names, and the steps of a trace.\<close>

datatype step = Suggestion | Reshaping | Training | Scoring | Checkpointing

fun steps_of :: "event list \<Rightarrow> step list" where
  "steps_of [] = []"
| "steps_of (Suggest name v # es) = Suggestion # steps_of es"
| "steps_of (CutData d sl # es) = Reshaping # steps_of es"
| "steps_of (Timegan data p # es) = Training # steps_of es"
| "steps_of (Evaluate fake val # es) = Scoring # steps_of es"
| "steps_of (JoblibDump name # es) = Checkpointing # steps_of es"
| "steps_of (e # es) = steps_of es"

text \<open>The domains of the six hyperparameters, as the specification lists them.\<close>

definition in_domain :: "string \<Rightarrow> pyval \<Rightarrow> bool" where
  "in_domain name v \<longleftrightarrow>
     name = ''module'' \<and> v \<in> {PyStr ''gru'', PyStr ''lstm'', PyStr ''lstmLN''} \<or>
     name = ''hidden_dim'' \<and> v \<in> {PyInt 6, PyInt 12, PyInt 24, PyInt 48} \<or>
     name = ''batch_size'' \<and> v \<in> {PyInt 2, PyInt 4, PyInt 8} \<or>
     name = ''num_layer'' \<and> v \<in> {PyInt 3, PyInt 4, PyInt 5, PyInt 6} \<or>
     name = ''iterations'' \<and> v \<in> {PyInt 100, PyInt 1000, PyInt 10000} \<or>
     name = ''seq_len'' \<and> v \<in> {PyInt 1, PyInt 5, PyInt 10}"

section \<open>The trials of a run\<close>

text \<open>
  Whether the trial with number \<open>n\<close> returns, and the score it returns then. A run of
  \<open>optimize\<close> that starts with \<open>n0\<close> trials in the study and is asked for \<open>k\<close> trials runs
  the trials \<open>run_numbers n0 k\<close>: trial 60 calls \<^verbatim>\<open>study.stop()\<close> and is the last one.
\<close>

definition trial_returns :: "env \<Rightarrow> DataFrame \<Rightarrow> string list \<Rightarrow> int list \<Rightarrow> nat \<Rightarrow> bool" where
  "trial_returns E dataset_train cols shift_numbers n =
     (case trial_fake E dataset_train cols shift_numbers n of Inl e \<Rightarrow> False | Inr fake \<Rightarrow> True)"

definition trial_score ::
  "env \<Rightarrow> DataFrame \<Rightarrow> DataFrame \<Rightarrow> string list \<Rightarrow> int list \<Rightarrow> nat \<Rightarrow> real" where
  "trial_score E dataset_train dataset_val cols shift_numbers n =
     (case trial_fake E dataset_train cols shift_numbers n of
        Inl e \<Rightarrow> 0
      | Inr fake \<Rightarrow> evaluate E fake dataset_val)"

definition run_count :: "nat \<Rightarrow> nat \<Rightarrow> nat" where
  "run_count n0 k = (if n0 \<le> 60 then min k (61 - n0) else k)"

definition run_numbers :: "nat \<Rightarrow> nat \<Rightarrow> nat list" where
  "run_numbers n0 k = [n0..<n0 + run_count n0 k]"

text \<open>The trial as the study keeps it when it has returned.\<close>

definition frozen ::
  "env \<Rightarrow> DataFrame \<Rightarrow> DataFrame \<Rightarrow> string list \<Rightarrow> int list \<Rightarrow> nat \<Rightarrow> frozen_trial" where
  "frozen E dataset_train dataset_val cols shift_numbers n =
     \<lparr>ft_number = n, ft_params = trial_suggestions E n,
      ft_value = Some (trial_score E dataset_train dataset_val cols shift_numbers n)\<rparr>"

text \<open>The state after one round of the loop of \<open>optimize_loop\<close>.\<close>

definition after_trial ::
  "(trial \<Rightarrow> pstate \<Rightarrow> (error \<times> pstate) + (real \<times> trial \<times> pstate)) \<Rightarrow> pstate \<Rightarrow> pstate" where
  "after_trial func st =
     (case func \<lparr>number = length (study_trials st), params = []\<rparr> st of
        Inl (e, st') \<Rightarrow> st'
      | Inr (v, tr, st') \<Rightarrow>
          emit (TrialFinished (number tr) v)
            (st'\<lparr>study_trials := study_trials st' @
                   [\<lparr>ft_number = number tr, ft_params = params tr, ft_value = Some v\<rparr>]\<rparr>))"

text \<open>
  Which trial has written the checkpoint \<open>name\<close>: the trace is read from the left, a
  \<open>JoblibDump\<close> of \<open>name\<close> is pending until the trial it belongs to is reported finished,
  and the last such trial is the answer (\<open>None\<close> when no trial of the trace has written it).
\<close>

definition scan_step :: "string \<Rightarrow> bool \<times> nat option \<Rightarrow> event \<Rightarrow> bool \<times> nat option" where
  "scan_step name s e =
     (case e of
        JoblibDump f \<Rightarrow> (if f = name then (True, snd s) else s)
      | TrialFinished n v \<Rightarrow> (False, if fst s then Some n else snd s)
      | _ \<Rightarrow> s)"

definition checkpoint_trial :: "string \<Rightarrow> event list \<Rightarrow> nat option" where
  "checkpoint_trial name tr = snd (foldl (scan_step name) (False, None) tr)"

text \<open>The running best of a list of trials: \<open>b\<close> is the best score so far and \<open>h\<close> the
  trial that holds it; a trial takes both over when its score is strictly higher.\<close>

fun best_of :: "(nat \<Rightarrow> real) \<Rightarrow> nat list \<Rightarrow> real \<times> nat option \<Rightarrow> real \<times> nat option" where
  "best_of sc [] acc = acc"
| "best_of sc (n # ns) (b, h) = best_of sc ns (if sc n > b then (sc n, Some n) else (b, h))"

text \<open>
  What the trials \<open>ns\<close>, run one after the other from the state \<open>st\<close>, leave in the state
  \<open>st'\<close>, when \<open>h\<close> is the trial that had written the checkpoint \<open>name\<close> before: the study
  has their records, \<open>best_scores\<close> and the writer of the checkpoint are the running best,
  and the checkpoint and the two attributes of \<open>objective\<close> are written when the best score
  has risen.
\<close>

definition loop_post ::
  "env \<Rightarrow> (nat \<Rightarrow> frozen_trial) \<Rightarrow> (nat \<Rightarrow> real) \<Rightarrow> string \<Rightarrow> nat list \<Rightarrow> pstate \<Rightarrow> nat option \<Rightarrow>
     pstate \<Rightarrow> bool" where
  "loop_post E fr sc name ns st h st' \<longleftrightarrow>
     study_trials st' = study_trials st @ map fr ns \<and>
     best_scores st' = fst (best_of sc ns (best_scores st, h)) \<and>
     foldl (scan_step name) (False, None) (trace st') =
       (False, snd (best_of sc ns (best_scores st, h))) \<and>
     files st' = (if best_scores st < fst (best_of sc ns (best_scores st, h))
                  then (files st)(name \<mapsto> JoblibTimegan) else files st) \<and>
     objective_seq_len st' =
       (if best_scores st < fst (best_of sc ns (best_scores st, h))
        then Some (trial_seq_len E (the (snd (best_of sc ns (best_scores st, h)))))
        else objective_seq_len st) \<and>
     objective_parameters st' =
       (if best_scores st < fst (best_of sc ns (best_scores st, h))
        then Some (trial_parameters E (the (snd (best_of sc ns (best_scores st, h)))))
        else objective_parameters st)"

text \<open>The trial \<open>m\<close> is the first of the trials \<open>ns\<close> that has the highest score.\<close>

definition first_best :: "(nat \<Rightarrow> real) \<Rightarrow> nat list \<Rightarrow> nat \<Rightarrow> bool" where
  "first_best sc ns m \<longleftrightarrow>
     m \<in> set ns \<and> list_all (\<lambda>n. sc n \<le> sc m \<and> (n < m \<longrightarrow> sc n < sc m)) ns"

text \<open>The state that a call of \<open>optimize\<close> or \<open>run_TimeGAN\<close> leaves, raised or returned.\<close>

definition final_state :: "(error \<times> pstate) + pstate \<Rightarrow> pstate" where
  "final_state r = (case r of Inl (e, st) \<Rightarrow> st | Inr st \<Rightarrow> st)"

text \<open>The exception of the first plotting call that raises on the trials \<open>ts\<close>, if one
  does.\<close>

fun first_plot_error :: "env \<Rightarrow> string list \<Rightarrow> frozen_trial list \<Rightarrow> error option" where
  "first_plot_error E [] ts = None"
| "first_plot_error E (name # names) ts =
     (case plot E name ts of Some e \<Rightarrow> Some e | None \<Rightarrow> first_plot_error E names ts)"

text \<open>The exception that a call has raised, if any.\<close>

definition raised :: "(error \<times> pstate) + pstate \<Rightarrow> error option" where
  "raised r = (case r of Inl (e, st) \<Rightarrow> Some e | Inr st \<Rightarrow> None)"

section \<open>A small environment for concrete runs\<close>

text \<open>
  An environment on which the definitions can be run: one data set with one column and
  one row, a windowing that gives one window, a sampler whose choice is the trial number,
  a trainer whose output is the suggested \<open>hidden_dim\<close>, and a scorer that applies \<open>score\<close>
  to the sum of the generated values. The trial \<open>n\<close> has \<open>hidden_dim\<close> 6, 12, 24 or 48
  for \<open>n mod 4\<close> equal to 0, 1, 2 or 3. The plots are as optuna's: the plot of the
  parameter importances raises \<^verbatim>\<open>ValueError\<close> when fewer than two trials are complete and
  \<^verbatim>\<open>RuntimeError\<close> when all complete trials have the same value; the other plots return.
\<close>

definition demo_plot :: "string \<Rightarrow> frozen_trial list \<Rightarrow> error option" where
  "demo_plot name ts =
     (let vs = List.map_filter ft_value ts
      in if name = ''param_importances''
         then (if length vs < 2 then Some ValueError
               else if list_all (\<lambda>v. v = hd vs) vs then Some RuntimeError
               else None)
         else None)"

definition demo_frame :: DataFrame where
  "demo_frame = \<lparr>df_columns = [''milk''], df_rows = [[0]]\<rparr>"

definition demo_env :: "(real \<Rightarrow> real) \<Rightarrow> env" where
  "demo_env score =
     \<lparr>sampler = (\<lambda>n name. n),
      timegan = (\<lambda>data p. case map_of p ''hidden_dim'' of
                              Some (PyInt k) \<Rightarrow> [[[real_of_int k]]]
                            | _ \<Rightarrow> data),
      evaluate = (\<lambda>fake val. score (sum_list (concat (df_rows fake)))),
      cut_data = (\<lambda>d seq_len. [df_rows d]),
      real_data_loading = demo_frame,
      preprocess_data = (\<lambda>d name shift_numbers. (d, df_columns d, d, d, shift_numbers)),
      evaluate_table = (\<lambda>fake test. []),
      load_data = (\<lambda>path_real path_fake. Inl FileNotFoundError),
      plot = demo_plot\<rparr>"

definition demo_hidden :: "nat \<Rightarrow> int" where
  "demo_hidden n = [6, 12, 24, 48] ! (n mod 4)"

definition peak_score :: "real \<Rightarrow> real" where
  "peak_score x = (if x = 12 then 2 else 1)"

definition zero_score :: "real \<Rightarrow> real" where
  "zero_score x = 0"

definition no_files :: "string \<Rightarrow> file_content option" where
  "no_files = Map.empty"

text \<open>Three runs of \<open>run_TimeGAN\<close> in this environment, each in a fresh process with no
  files and a new storage: three trials with the scores 1, 2 and 1, two trials with the
  score 0, and a run that is asked for 62 trials.\<close>

definition peak_run :: "(error \<times> pstate) + pstate" where
  "peak_run = run_TimeGAN (demo_env peak_score) 500 3 ''db'' [0] (fresh_process no_files [])"

definition zero_run :: "(error \<times> pstate) + pstate" where
  "zero_run = run_TimeGAN (demo_env zero_score) 500 2 ''db'' [0] (fresh_process no_files [])"

definition long_run :: "(error \<times> pstate) + pstate" where
  "long_run = run_TimeGAN (demo_env zero_score) 500 62 ''db'' [0] (fresh_process no_files [])"

section \<open>Lemmas on postprocess\_data\<close>

lemma nth_concat_uniform:
  "list_all (\<lambda>x. length x = s) xss \<Longrightarrow> i < length xss \<Longrightarrow> j < s \<Longrightarrow>
     concat xss ! (i * s + j) = xss ! i ! j"
proof (induction xss arbitrary: i)
  case Nil
  then show ?case by simp
next
  case (Cons x xss)
  show ?case
  proof (cases i)
    case 0
    with Cons.prems show ?thesis by (simp add: nth_append)
  next
    case (Suc k)
    with Cons.prems have "concat xss ! (k * s + j) = xss ! k ! j"
      by (intro Cons.IH) simp_all
    moreover have "Suc k * s + j = length x + (k * s + j)"
      using Cons.prems by simp
    ultimately show ?thesis using Suc by (simp add: nth_append del: mult_Suc)
  qed
qed

lemma length_concat_uniform:
  "list_all (\<lambda>x. length x = s) xss \<Longrightarrow> length (concat xss) = length xss * s"
  by (induction xss) simp_all

lemma loops_are_concat:
  assumes "list_all (\<lambda>m. length m = s) a"
  shows "concat (map (\<lambda>i. map (\<lambda>j. a ! i ! j) [0..<shape1 a]) [0..<shape0 a]) = concat a"
proof -
  have "map (\<lambda>i. map (\<lambda>j. a ! i ! j) [0..<shape1 a]) [0..<shape0 a] = a"
  proof (rule nth_equalityI)
    show "length (map (\<lambda>i. map (\<lambda>j. a ! i ! j) [0..<shape1 a]) [0..<shape0 a]) = length a"
      by (simp add: shape0_def)
  next
    fix i
    assume "i < length (map (\<lambda>i. map (\<lambda>j. a ! i ! j) [0..<shape1 a]) [0..<shape0 a])"
    then have i: "i < length a" by (simp add: shape0_def)
    then have "a \<noteq> []" by auto
    then have "shape1 a = length (a ! 0)"
      by (cases a) (simp_all add: shape1_def)
    also have "\<dots> = s"
      using assms \<open>a \<noteq> []\<close> by (cases a) simp_all
    finally have s1: "shape1 a = s" .
    have "length (a ! i) = s"
      using assms i by (simp add: list_all_length)
    then have "map (\<lambda>j. a ! i ! j) [0..<s] = a ! i"
      by (metis map_nth)
    then show "map (\<lambda>i. map (\<lambda>j. a ! i ! j) [0..<shape1 a]) [0..<shape0 a] ! i = a ! i"
      using i s1 by (simp add: shape0_def)
  qed
  then show ?thesis by simp
qed

lemma py_slice_upto_neg:
  "0 < k \<Longrightarrow> py_slice_upto (- int k) xs = take (length xs - k) xs"
  by (simp add: py_slice_upto_def nat_diff_distrib')

lemma has_shape_slice:
  assumes "has_shape n s c g" and "shift_numbers \<noteq> []"
  shows "has_shape n s (kept_width shift_numbers c)
           (if shift_numbers \<noteq> [0]
            then map (map (py_slice_upto (int (length shift_numbers) * - 1))) g else g)"
proof (cases "shift_numbers = [0]")
  case True
  with assms show ?thesis by (simp add: kept_width_def)
next
  case False
  have k: "0 < length shift_numbers" using assms(2) by simp
  show ?thesis
    using assms False
    by (simp add: has_shape_def kept_width_def py_slice_upto_neg [OF k] list_all_iff)
qed

lemma slice_nth:
  assumes "has_shape n s c g" "shift_numbers \<noteq> []" "i < n" "j < s"
  shows "(if shift_numbers \<noteq> [0]
            then map (map (py_slice_upto (int (length shift_numbers) * - 1))) g else g) ! i ! j
         = take (kept_width shift_numbers c) (g ! i ! j)"
proof -
  have k: "0 < length shift_numbers" using assms(2) by simp
  have li: "i < length g" and lj: "j < length (g ! i)" and lc: "length (g ! i ! j) = c"
    using assms by (simp_all add: has_shape_def list_all_length)
  show ?thesis
    using li lj lc by (simp add: kept_width_def py_slice_upto_neg [OF k])
qed

lemma postprocess_data_concat:
  assumes "has_shape n s c g"
  shows "postprocess_data e g cols sl shift_numbers =
           pd_DataFrame (concat (if shift_numbers \<noteq> [0]
            then map (map (py_slice_upto (int (length shift_numbers) * - 1))) g else g)) cols"
proof -
  have "list_all (\<lambda>m. length m = s) g"
    using assms by (simp add: has_shape_def list_all_iff)
  then have "list_all (\<lambda>m. length m = s) (if shift_numbers \<noteq> [0]
            then map (map (py_slice_upto (int (length shift_numbers) * - 1))) g else g)"
    by (simp add: list_all_iff)
  from loops_are_concat [OF this] show ?thesis
    by (simp add: postprocess_data_def Let_def)
qed

text \<open>
  With an empty \<open>shift_numbers\<close> the test \<^verbatim>\<open>shift_numbers != (0,)\<close> holds and the slice is
  \<^verbatim>\<open>[:,:,:0]\<close>: every feature column is dropped, not none.
\<close>

lemma postprocess_data_no_shift_numbers:
  "postprocess_data ''opt'' [[[1, 2]]] [] (PyInt 1) [] = Inr \<lparr>df_columns = [], df_rows = [[]]\<rparr>"
  by (simp add: postprocess_data_def shape0_def shape1_def pd_DataFrame_def py_slice_upto_def
        Let_def)

section \<open>C8: the rows of postprocess\_data\<close>

text \<open>
  C8, as stated: for every generated array of shape \<open>(n, s, c)\<close>, \<open>postprocess_data\<close> returns
  a DataFrame with \<open>n * s\<close> rows labelled by \<open>columns\<close>. It does not for every array: the
  array of shape \<open>(1, 1, 2)\<close> below has rows of width 2, one column label is given, and the
  DataFrame constructor raises \<^verbatim>\<open>ValueError\<close>.
\<close>

theorem postprocess_data_counterexample:
  "has_shape 1 1 2 [[[1, 2]]] \<and>
   postprocess_data ''opt'' [[[1, 2]]] [''a''] (PyInt 1) [0] = Inl ValueError"
  by (simp add: has_shape_def postprocess_data_def shape0_def shape1_def pd_DataFrame_def Let_def)

text \<open>
  C8, amended: for every generated array of shape \<open>(n, s, c)\<close> and every non-empty
  \<open>shift_numbers\<close>, if the array has no row (\<open>n * s = 0\<close>) or the number of column labels is
  the kept width (\<open>c\<close> when \<open>shift_numbers\<close> is \<open>(0,)\<close>, otherwise \<open>c\<close> less the number of
  shifts, at least 0), then \<open>postprocess_data\<close> returns a DataFrame whose labels are
  \<open>columns\<close>, with exactly \<open>n * s\<close> rows, whose row \<open>i * s + j\<close> is \<open>generated_data[i, j, :]\<close>
  cut to the kept width; for \<open>(0,)\<close> this is the whole of \<open>generated_data[i, j, :]\<close>.
\<close>

theorem postprocess_data_rows:
  assumes "has_shape n s c g" and "shift_numbers \<noteq> []"
    and "n * s = 0 \<or> length cols = kept_width shift_numbers c"
  shows "\<exists>df. postprocess_data e g cols sl shift_numbers = Inr df \<and>
           df_columns df = cols \<and> length (df_rows df) = n * s \<and>
           (\<forall>i<n. \<forall>j<s.
              df_rows df ! (i * s + j) = take (kept_width shift_numbers c) (g ! i ! j) \<and>
              (shift_numbers = [0] \<longrightarrow> df_rows df ! (i * s + j) = g ! i ! j))"
proof -
  define g' where "g' = (if shift_numbers \<noteq> [0]
            then map (map (py_slice_upto (int (length shift_numbers) * - 1))) g else g)"
  define w where "w = kept_width shift_numbers c"
  have sh: "has_shape n s w g'"
    unfolding g'_def w_def using has_shape_slice [OF assms(1) assms(2)] .
  have uni: "list_all (\<lambda>m. length m = s) g'" and len: "length g' = n"
    using sh by (simp_all add: has_shape_def list_all_iff)
  have lenc: "length (concat g') = n * s"
    using length_concat_uniform [OF uni] len by simp
  have widths: "list_all (\<lambda>r. length r = w) (concat g')"
    using sh by (auto simp: has_shape_def list_all_iff)
  have ok: "list_all (\<lambda>r. length r = length cols) (concat g')"
  proof (cases "n * s = 0")
    case True
    with lenc have "length (concat g') = 0" by (simp only:)
    then have "concat g' = []" by (rule length_0_conv [THEN iffD1])
    then show ?thesis by (simp only: list.pred_inject)
  next
    case False
    with assms(3) have "length cols = w" by (simp add: w_def)
    with widths show ?thesis by simp
  qed
  have res: "postprocess_data e g cols sl shift_numbers =
               Inr \<lparr>df_columns = cols, df_rows = concat g'\<rparr>"
    using postprocess_data_concat [OF assms(1)] ok by (simp add: g'_def pd_DataFrame_def)
  have rows: "concat g' ! (i * s + j) = take w (g ! i ! j)" if "i < n" "j < s" for i j
  proof -
    have "concat g' ! (i * s + j) = g' ! i ! j"
      using nth_concat_uniform [OF uni] that len by simp
    also have "\<dots> = take w (g ! i ! j)"
      unfolding g'_def w_def using slice_nth [OF assms(1) assms(2) that] .
    finally show ?thesis .
  qed
  have full: "take w (g ! i ! j) = g ! i ! j" if "i < n" "j < s" "shift_numbers = [0]" for i j
  proof -
    have "length (g ! i ! j) = c"
      using assms(1) that by (simp add: has_shape_def list_all_length)
    with that show ?thesis by (simp add: w_def kept_width_def)
  qed
  show ?thesis
    using res lenc rows full by (auto simp: w_def)
qed

theorem postprocess_data_rows_witness:
  "has_shape 2 1 3 [[[1, 2, 3]], [[4, 5, 6]]] \<and>
   postprocess_data ''opt'' [[[1, 2, 3]], [[4, 5, 6]]] [''a'', ''b''] (PyInt 1) [7] =
     Inr \<lparr>df_columns = [''a'', ''b''], df_rows = [[1, 2], [4, 5]]\<rparr>"
proof -
  have h: "has_shape 2 1 3 [[[1, 2, 3]], [[4, 5, 6]]]"
    by (simp add: has_shape_def)
  have "[7] \<noteq> ([]::int list)" by simp
  from postprocess_data_rows [OF h this, of "[''a'', ''b'']" "''opt''" "PyInt 1"]
  obtain df where
    df: "postprocess_data ''opt'' [[[1, 2, 3]], [[4, 5, 6]]] [''a'', ''b''] (PyInt 1) [7] = Inr df"
      "df_columns df = [''a'', ''b'']" "length (df_rows df) = 2"
      "df_rows df ! 0 = [1, 2]" "df_rows df ! 1 = [4, 5]"
    by (auto simp: kept_width_def)
  show ?thesis
    using h df
    by (simp add: postprocess_data_def shape0_def shape1_def pd_DataFrame_def py_slice_upto_def
          Let_def upt_rec)
qed

section \<open>Lemmas on objective\<close>

lemma emit_emits: "emit e st = emits [e] st"
  by (simp add: emit_def emits_def)

lemma emits_emits: "emits es' (emits es st) = emits (es @ es') st"
  by (simp add: emits_def)

lemma emits_fields:
  "best_scores (emits es st) = best_scores st"
  "objective_seq_len (emits es st) = objective_seq_len st"
  "objective_parameters (emits es st) = objective_parameters st"
  "files (emits es st) = files st"
  "stop_flag (emits es st) = stop_flag st"
  "study_trials (emits es st) = study_trials st"
  "trace (emits es st) = trace st @ es"
  by (simp_all add: emits_def)

lemma study_stop_emits: "study_stop st = emits [StudyStop] (st\<lparr>stop_flag := True\<rparr>)"
  by (simp add: study_stop_def emit_def emits_def)

lemma suggest_categorical_eq:
  "suggest_categorical E name choices \<lparr>number = n, params = ps\<rparr> st =
     (pick E n name choices,
      \<lparr>number = n, params = AList.update name (pick E n name choices) ps\<rparr>,
      emits [Suggest name (pick E n name choices)] st)"
  by (simp add: suggest_categorical_def emit_emits Let_def)

lemma suggest_int_eq:
  "suggest_int E name low high step \<lparr>number = n, params = ps\<rparr> st =
     (pick_int E n name low high step,
      \<lparr>number = n, params = AList.update name (pick_int E n name low high step) ps\<rparr>,
      emits [Suggest name (pick_int E n name low high step)] st)"
  by (simp add: suggest_int_def emit_emits Let_def)

lemma objective_unfold_rec:
  "objective E \<lparr>number = n, params = ps\<rparr> dataset_train dataset_val num_samples cols database_name
       shift_numbers st =
     (case trial_fake E dataset_train cols shift_numbers n of
        Inl e \<Rightarrow> Inl (e, trial_state E dataset_train n st)
      | Inr fake_data \<Rightarrow>
          Inr (evaluate E fake_data dataset_val,
               \<lparr>number = n,
                params = fold (\<lambda>(name, v). AList.update name v) (trial_suggestions E n) ps\<rparr>,
               if evaluate E fake_data dataset_val > best_scores st
               then (emits [Evaluate fake_data dataset_val, JoblibDump (database_name @ ''.gz'')]
                       (trial_state E dataset_train n st))
                      \<lparr>files := (files st)(database_name @ ''.gz'' \<mapsto> JoblibTimegan),
                       objective_seq_len := Some (trial_seq_len E n),
                       objective_parameters := Some (trial_parameters E n),
                       best_scores := evaluate E fake_data dataset_val\<rparr>
               else emits [Evaluate fake_data dataset_val] (trial_state E dataset_train n st)))"
  by (simp add: objective_def suggest_categorical_eq suggest_int_eq Let_def trial_state_def
    trial_fake_def trial_data_def trial_parameters_def trial_seq_len_def trial_events_def
    trial_suggestions_def study_stop_emits emit_emits emits_emits emits_fields
    split: sum.splits)

lemma objective_unfold:
  "objective E tr dataset_train dataset_val num_samples cols database_name shift_numbers st =
     (case trial_fake E dataset_train cols shift_numbers (number tr) of
        Inl e \<Rightarrow> Inl (e, trial_state E dataset_train (number tr) st)
      | Inr fake_data \<Rightarrow>
          Inr (evaluate E fake_data dataset_val,
               tr\<lparr>params := fold (\<lambda>(name, v). AList.update name v)
                                (trial_suggestions E (number tr)) (params tr)\<rparr>,
               if evaluate E fake_data dataset_val > best_scores st
               then (emits [Evaluate fake_data dataset_val, JoblibDump (database_name @ ''.gz'')]
                       (trial_state E dataset_train (number tr) st))
                      \<lparr>files := (files st)(database_name @ ''.gz'' \<mapsto> JoblibTimegan),
                       objective_seq_len := Some (trial_seq_len E (number tr)),
                       objective_parameters := Some (trial_parameters E (number tr)),
                       best_scores := evaluate E fake_data dataset_val\<rparr>
               else emits [Evaluate fake_data dataset_val]
                      (trial_state E dataset_train (number tr) st)))"
proof -
  obtain n ps where tr: "tr = \<lparr>number = n, params = ps\<rparr>"
    by (cases tr)
  show ?thesis
    unfolding tr objective_unfold_rec by (simp cong del: if_weak_cong cong: sum.case_cong)
qed

lemma suggestions_of_append: "suggestions_of (xs @ ys) = suggestions_of xs @ suggestions_of ys"
  by (induction xs rule: suggestions_of.induct) simp_all

lemma timegan_calls_append: "timegan_calls (xs @ ys) = timegan_calls xs @ timegan_calls ys"
  by (induction xs rule: timegan_calls.induct) simp_all

lemma evaluate_calls_append: "evaluate_calls (xs @ ys) = evaluate_calls xs @ evaluate_calls ys"
  by (induction xs rule: evaluate_calls.induct) simp_all

lemma dumps_append: "dumps (xs @ ys) = dumps xs @ dumps ys"
  by (induction xs rule: dumps.induct) simp_all


lemma new_events_emits: "new_events st (emits es st) = es"
  by (simp add: new_events_def emits_def)

lemma trace_trial_state:
  "trace (trial_state E dataset_train n st) = trace st @ trial_events E dataset_train n"
  by (simp add: trial_state_def emits_def)

lemma objective_new_events:
  "new_events st (state_after (objective E tr dataset_train dataset_val num_samples cols
       database_name shift_numbers st)) =
     trial_events E dataset_train (number tr) @
     (case trial_fake E dataset_train cols shift_numbers (number tr) of
        Inl e \<Rightarrow> []
      | Inr fake_data \<Rightarrow>
          Evaluate fake_data dataset_val #
          (if evaluate E fake_data dataset_val > best_scores st
           then [JoblibDump (database_name @ ''.gz'')] else []))"
  by (simp add: objective_unfold state_after_def new_events_def emits_fields trace_trial_state
        split: sum.splits)

lemma trial_events_observed:
  "suggestions_of (trial_events E dataset_train n) = trial_suggestions E n"
  "timegan_calls (trial_events E dataset_train n) =
     [(trial_data E dataset_train n, trial_parameters E n)]"
  "evaluate_calls (trial_events E dataset_train n) = []"
  "dumps (trial_events E dataset_train n) = []"
  "steps_of (trial_events E dataset_train n) = replicate 6 Suggestion @ [Reshaping, Training]"
  by (simp_all add: trial_events_def trial_suggestions_def numeral_eq_Suc)

lemma pick_in_set: "choices \<noteq> [] \<Longrightarrow> pick E n name choices \<in> set choices"
  by (simp add: pick_def)

lemma pick_int_num_layer:
  "pick_int E n name 3 6 1 \<in> {PyInt 3, PyInt 4, PyInt 5, PyInt 6}"
proof -
  have "sampler E n name mod 4 < 4" by simp
  then have "sampler E n name mod 4 \<in> {0, 1, 2, 3}" by auto
  then show ?thesis by (auto simp: pick_int_def)
qed

lemma trial_suggestions_in_domain:
  "list_all (\<lambda>(name, v). in_domain name v) (trial_suggestions E n)"
proof -
  have "pick E n ''module'' [PyStr ''gru'', PyStr ''lstm'', PyStr ''lstmLN'']
          \<in> set [PyStr ''gru'', PyStr ''lstm'', PyStr ''lstmLN'']"
       "pick E n ''hidden_dim'' [PyInt 6, PyInt 12, PyInt 24, PyInt 48]
          \<in> set [PyInt 6, PyInt 12, PyInt 24, PyInt 48]"
       "pick E n ''batch_size'' [PyInt 2, PyInt 4, PyInt 8] \<in> set [PyInt 2, PyInt 4, PyInt 8]"
       "pick E n ''iterations'' [PyInt 100, PyInt 1000, PyInt 10000]
          \<in> set [PyInt 100, PyInt 1000, PyInt 10000]"
       "pick E n ''seq_len'' [PyInt 1, PyInt 5, PyInt 10] \<in> set [PyInt 1, PyInt 5, PyInt 10]"
    by (rule pick_in_set, simp)+
  with pick_int_num_layer [of E n "''num_layer''"] show ?thesis
    by (simp add: trial_suggestions_def in_domain_def)
qed

lemma map_of_trial_parameters:
  "map_of (trial_parameters E n) = map_of (trial_suggestions E n)"
  by (rule ext) (simp add: trial_parameters_def trial_suggestions_def trial_seq_len_def)

section \<open>C4: the domains of the hyperparameters\<close>

text \<open>
  C4: in every trial the six suggestions are, in this order, \<open>module\<close>, \<open>hidden_dim\<close>,
  \<open>batch_size\<close>, \<open>num_layer\<close>, \<open>iterations\<close> and \<open>seq_len\<close>, each value lies in its fixed
  finite domain (\<open>in_domain\<close>), and the trainer is called once, with a dictionary that
  holds exactly the six suggested values under their names.
\<close>

theorem objective_suggestions_in_domain:
  "let evs = new_events st (state_after (objective E tr dataset_train dataset_val num_samples
                                             cols database_name shift_numbers st))
   in map fst (suggestions_of evs) =
        [''module'', ''hidden_dim'', ''batch_size'', ''num_layer'', ''iterations'', ''seq_len''] \<and>
      list_all (\<lambda>(name, v). in_domain name v) (suggestions_of evs) \<and>
      (\<exists>data p. timegan_calls evs = [(data, p)] \<and> map_of p = map_of (suggestions_of evs))"
proof -
  have "suggestions_of (new_events st (state_after (objective E tr dataset_train dataset_val
          num_samples cols database_name shift_numbers st))) = trial_suggestions E (number tr)"
    by (simp add: objective_new_events suggestions_of_append trial_events_observed
          split: sum.splits)
  moreover have "timegan_calls (new_events st (state_after (objective E tr dataset_train
          dataset_val num_samples cols database_name shift_numbers st))) =
          [(trial_data E dataset_train (number tr), trial_parameters E (number tr))]"
    by (simp add: objective_new_events timegan_calls_append trial_events_observed
          split: sum.splits)
  moreover have "map fst (trial_suggestions E (number tr)) =
        [''module'', ''hidden_dim'', ''batch_size'', ''num_layer'', ''iterations'', ''seq_len'']"
    by (simp add: trial_suggestions_def)
  ultimately show ?thesis
    by (simp add: Let_def trial_suggestions_in_domain map_of_trial_parameters)
qed

section \<open>C5: the order of the steps of a trial\<close>


section \<open>C6: the score that objective returns\<close>

text \<open>
  C6: in every trial \<open>objective\<close> returns the score that \<open>evaluate\<close> gives for the
  postprocessed generated data against the validation set. The scorer is called once, with
  these two arguments, and the returned value is the one compared with \<open>best_scores\<close>: the
  new \<open>best_scores\<close> is the larger of the two, and the checkpoint is written exactly when
  the returned value is the larger. A trial in which \<open>postprocess_data\<close> raises returns
  nothing: \<open>objective\<close> raises the same exception.
\<close>

theorem objective_returns_score:
  "case trial_fake E dataset_train cols shift_numbers (number tr) of
     Inl e \<Rightarrow>
       (\<exists>st'. objective E tr dataset_train dataset_val num_samples cols database_name
                shift_numbers st = Inl (e, st'))
   | Inr fake_data \<Rightarrow>
       (\<exists>tr' st'. objective E tr dataset_train dataset_val num_samples cols database_name
                shift_numbers st = Inr (evaluate E fake_data dataset_val, tr', st') \<and>
          evaluate_calls (new_events st st') = [(fake_data, dataset_val)] \<and>
          best_scores st' = max (best_scores st) (evaluate E fake_data dataset_val) \<and>
          (dumps (new_events st st') =
             (if evaluate E fake_data dataset_val > best_scores st
              then [database_name @ ''.gz''] else [])))"
proof (cases "trial_fake E dataset_train cols shift_numbers (number tr)")
  case (Inl e)
  then show ?thesis by (simp add: objective_unfold)
next
  case (Inr fake_data)
  have "new_events st (state_after (objective E tr dataset_train dataset_val num_samples cols
       database_name shift_numbers st)) =
     trial_events E dataset_train (number tr) @
          Evaluate fake_data dataset_val #
          (if evaluate E fake_data dataset_val > best_scores st
           then [JoblibDump (database_name @ ''.gz'')] else [])"
    unfolding objective_new_events using Inr by simp
  then show ?thesis using Inr
    by (simp add: objective_unfold state_after_def evaluate_calls_append dumps_append
          trial_events_observed emits_fields trial_state_def)
qed

section \<open>C7: what test\_samples does\<close>

text \<open>
  C7: \<open>test_samples\<close> loads the real test data from \<^verbatim>\<open>test_data_schachtschneider.csv\<close> and the
  synthetic data from \<^verbatim>\<open>fake_data_<database_name>.csv\<close>; when the loader raises, so does
  \<open>test_samples\<close>. Otherwise it builds the table evaluator on the test and the fake data
  with the categorical columns \<open>public_holiday\<close> and \<open>weekday\<close>, runs the visual evaluation
  and the evaluation with target column \<open>Lavandula\<close> and target type \<open>regr\<close>, and prints the
  scores per metric of the fake data against the test data; with \<open>print_data\<close> it first
  prints the fake and the test data.
\<close>

theorem test_samples_events:
  "test_samples E database_name print_data =
     (case load_data E ''test_data_schachtschneider.csv''
             (''fake_data_'' @ database_name @ ''.csv'') of
        Inl e \<Rightarrow> Inl e
      | Inr (test, fake) \<Rightarrow>
          Inr ((if print_data then [PrintFrame fake, PrintFrame test] else []) @
               [TableEvaluator test fake [''public_holiday'', ''weekday''],
                VisualEvaluation,
                TableEvaluate ''Lavandula'' ''regr'',
                PrintScores (evaluate_table E fake test)]))"
  by (simp add: test_samples_def Let_def split: sum.splits)

section \<open>C10: print\_data does not reach the evaluations\<close>

text \<open>
  C10: for the same files, the evaluations and the printed scores of \<open>test_samples\<close> with
  \<open>print_data = True\<close> are those with \<open>print_data = False\<close>, with the same arguments and in
  the same order, and the same exception when the loader raises; the flag only adds the
  printing of the two loaded data sets, and without it no data set is printed.
\<close>

theorem test_samples_print_data:
  "map_sum id (filter is_evaluation) (test_samples E database_name True) =
     test_samples E database_name False \<and>
   map_sum id (filter is_evaluation) (test_samples E database_name False) =
     test_samples E database_name False"
  by (simp add: test_samples_def Let_def split: sum.splits)

section \<open>Lemmas on the running best\<close>

lemma best_of_ge_start: "b \<le> fst (best_of sc ns (b, h))"
proof (induction ns arbitrary: b h)
  case Nil
  show ?case by simp
next
  case (Cons n ns)
  show ?case
  proof (cases "sc n > b")
    case True
    have "sc n \<le> fst (best_of sc ns (sc n, Some n))" by (rule Cons.IH)
    with True show ?thesis by simp
  next
    case False
    with Cons.IH [of b h] show ?thesis by simp
  qed
qed

lemma best_of_ge_all: "n \<in> set ns \<Longrightarrow> sc n \<le> fst (best_of sc ns (b, h))"
proof (induction ns arbitrary: b h)
  case Nil
  then show ?case by simp
next
  case (Cons a ns)
  show ?case
  proof (cases "n = a")
    case True
    show ?thesis
    proof (cases "sc a > b")
      case gt: True
      with best_of_ge_start [of "sc a" sc ns "Some a"] True show ?thesis by simp
    next
      case False
      with best_of_ge_start [of b sc ns h] True show ?thesis by simp
    qed
  next
    case False
    with Cons.prems have "n \<in> set ns" by simp
    from Cons.IH [OF this] show ?thesis by simp
  qed
qed

lemma best_of_unchanged: "fst (best_of sc ns (b, h)) = b \<Longrightarrow> snd (best_of sc ns (b, h)) = h"
proof (induction ns arbitrary: b h)
  case Nil
  show ?case by simp
next
  case (Cons n ns)
  show ?case
  proof (cases "sc n > b")
    case True
    with best_of_ge_start [of "sc n" sc ns "Some n"] Cons.prems show ?thesis by simp
  next
    case False
    with Cons show ?thesis by simp
  qed
qed

lemma best_of_holder:
  "b < fst (best_of sc ns (b, h)) \<Longrightarrow>
     \<exists>pre m post. ns = pre @ m # post \<and> best_of sc ns (b, h) = (sc m, Some m) \<and>
        (\<forall>n\<in>set pre. sc n < sc m) \<and> (\<forall>n\<in>set post. sc n \<le> sc m)"
proof (induction ns arbitrary: b h)
  case Nil
  then show ?case by simp
next
  case (Cons a ns)
  show ?case
  proof (cases "sc a > b")
    case True
    then have eq: "best_of sc (a # ns) (b, h) = best_of sc ns (sc a, Some a)" by simp
    show ?thesis
    proof (cases "sc a < fst (best_of sc ns (sc a, Some a))")
      case lt: True
      from Cons.IH [OF lt] obtain pre m post where
        m: "ns = pre @ m # post" "best_of sc ns (sc a, Some a) = (sc m, Some m)"
           "\<forall>n\<in>set pre. sc n < sc m" "\<forall>n\<in>set post. sc n \<le> sc m"
        by blast
      from lt m(2) have "sc a < sc m" by simp
      with m eq have "a # ns = (a # pre) @ m # post \<and>
          best_of sc (a # ns) (b, h) = (sc m, Some m) \<and>
          (\<forall>n\<in>set (a # pre). sc n < sc m) \<and> (\<forall>n\<in>set post. sc n \<le> sc m)"
        by simp
      then show ?thesis by blast
    next
      case False
      with best_of_ge_start [of "sc a" sc ns "Some a"]
      have f: "fst (best_of sc ns (sc a, Some a)) = sc a" by simp
      from best_of_unchanged [OF this] f
      have "best_of sc ns (sc a, Some a) = (sc a, Some a)"
        by (simp add: prod_eq_iff)
      moreover have "\<forall>n\<in>set ns. sc n \<le> sc a"
        using best_of_ge_all [of _ ns sc "sc a" "Some a"] f by simp
      ultimately have "a # ns = [] @ a # ns \<and>
          best_of sc (a # ns) (b, h) = (sc a, Some a) \<and>
          (\<forall>n\<in>set []. sc n < sc a) \<and> (\<forall>n\<in>set ns. sc n \<le> sc a)"
        using eq by simp
      then show ?thesis by blast
    qed
  next
    case False
    then have eq: "best_of sc (a # ns) (b, h) = best_of sc ns (b, h)" by simp
    with Cons.prems have "b < fst (best_of sc ns (b, h))" by simp
    from Cons.IH [OF this] obtain pre m post where
      m: "ns = pre @ m # post" "best_of sc ns (b, h) = (sc m, Some m)"
         "\<forall>n\<in>set pre. sc n < sc m" "\<forall>n\<in>set post. sc n \<le> sc m"
      by blast
    from \<open>b < fst (best_of sc ns (b, h))\<close> m(2) False have "sc a < sc m" by simp
    with m eq have "a # ns = (a # pre) @ m # post \<and>
        best_of sc (a # ns) (b, h) = (sc m, Some m) \<and>
        (\<forall>n\<in>set (a # pre). sc n < sc m) \<and> (\<forall>n\<in>set post. sc n \<le> sc m)"
      by simp
    then show ?thesis by blast
  qed
qed

section \<open>Lemmas on the loop of optimize\<close>

lemma optimize_loop_stopped: "stop_flag st \<Longrightarrow> optimize_loop func k st = Inr st"
  by (cases k) simp_all

lemma optimize_loop_returns:
  assumes "\<not> stop_flag st"
    and "func \<lparr>number = length (study_trials st), params = []\<rparr> st = Inr x"
  shows "optimize_loop func (Suc k) st = optimize_loop func k (after_trial func st)"
  using assms by (cases x) (simp add: after_trial_def)

lemma optimize_loop_raises:
  assumes "\<not> stop_flag st"
    and "func \<lparr>number = length (study_trials st), params = []\<rparr> st = Inl x"
  shows "optimize_loop func (Suc k) st = Inl x"
  using assms by simp

lemma fold_update_suggestions:
  "fold (\<lambda>(name, v). AList.update name v) (trial_suggestions E n) [] = trial_suggestions E n"
  by (simp add: trial_suggestions_def)

lemma scan_trial_events:
  "foldl (scan_step name) s (trial_events E dataset_train n) = s"
  by (simp add: trial_events_def trial_suggestions_def scan_step_def)

lemma after_trial_objective:
  assumes "trial_fake E dataset_train cols shift_numbers (length (study_trials st)) = Inr fake"
    and n_def: "n = length (study_trials st)"
    and v_def: "v = evaluate E fake dataset_val"
    and st'_def: "st' = after_trial (\<lambda>trial. objective E trial dataset_train dataset_val
                      num_samples cols database_name shift_numbers) st"
  shows "stop_flag st' = (n = 60 \<or> stop_flag st)"
    and "study_trials st' = study_trials st @
           [\<lparr>ft_number = n, ft_params = trial_suggestions E n, ft_value = Some v\<rparr>]"
    and "best_scores st' = (if v > best_scores st then v else best_scores st)"
    and "files st' = (if v > best_scores st
                      then (files st)(database_name @ ''.gz'' \<mapsto> JoblibTimegan) else files st)"
    and "objective_seq_len st' =
           (if v > best_scores st then Some (trial_seq_len E n) else objective_seq_len st)"
    and "objective_parameters st' =
           (if v > best_scores st then Some (trial_parameters E n) else objective_parameters st)"
    and "trace st' = trace st @ trial_events E dataset_train n @
           Evaluate fake dataset_val #
           (if v > best_scores st then [JoblibDump (database_name @ ''.gz'')] else []) @
           [TrialFinished n v]"
  using assms(1)
  by (simp_all add: st'_def n_def v_def after_trial_def objective_unfold emit_emits emits_fields
        trial_state_def fold_update_suggestions)


lemma loop_post_Nil:
  "foldl (scan_step name) (False, None) (trace st) = (False, h) \<Longrightarrow>
     loop_post E fr sc name [] st h st"
  by (simp add: loop_post_def)

lemma loop_post_Cons:
  assumes st1: "study_trials st1 = study_trials st @ [fr n]"
      "best_scores st1 = (if sc n > best_scores st then sc n else best_scores st)"
      "files st1 = (if sc n > best_scores st
                      then (files st)(name \<mapsto> JoblibTimegan) else files st)"
      "objective_seq_len st1 =
           (if sc n > best_scores st then Some (trial_seq_len E n) else objective_seq_len st)"
      "objective_parameters st1 =
           (if sc n > best_scores st then Some (trial_parameters E n) else objective_parameters st)"
    and rest: "loop_post E fr sc name ns st1 (if sc n > best_scores st then Some n else h) st'"
  shows "loop_post E fr sc name (n # ns) st h st'"
proof (cases "sc n > best_scores st")
  case True
  let ?R = "best_of sc ns (sc n, Some n)"
  have R: "best_of sc (n # ns) (best_scores st, h) = ?R"
    using True by simp
  have ge: "sc n \<le> fst ?R" by (rule best_of_ge_start)
  with True have lt: "best_scores st < fst ?R" by simp
  have same: "snd ?R = Some n" if "\<not> sc n < fst ?R"
  proof -
    from that ge have "fst ?R = sc n" by simp
    then show ?thesis by (rule best_of_unchanged)
  qed
  from rest True st1 have post:
    "study_trials st' = (study_trials st @ [fr n]) @ map fr ns"
    "best_scores st' = fst ?R"
    "foldl (scan_step name) (False, None) (trace st') = (False, snd ?R)"
    "files st' = (if sc n < fst ?R
                  then ((files st)(name \<mapsto> JoblibTimegan))(name \<mapsto> JoblibTimegan)
                  else (files st)(name \<mapsto> JoblibTimegan))"
    "objective_seq_len st' =
       (if sc n < fst ?R then Some (trial_seq_len E (the (snd ?R))) else Some (trial_seq_len E n))"
    "objective_parameters st' =
       (if sc n < fst ?R then Some (trial_parameters E (the (snd ?R)))
        else Some (trial_parameters E n))"
    by (simp_all add: loop_post_def)
  show ?thesis
    unfolding loop_post_def R
    using post lt same by (simp split: if_splits)
next
  case False
  have R: "best_of sc (n # ns) (best_scores st, h) = best_of sc ns (best_scores st, h)"
    using False by simp
  from rest False st1 show ?thesis
    unfolding loop_post_def R by simp
qed


lemma run_numbers_0: "run_numbers n0 0 = []"
  by (simp add: run_numbers_def run_count_def)

lemma run_count_Suc:
  "run_count n0 (Suc k) = (if n0 = 60 then 1 else Suc (run_count (Suc n0) k))"
  by (auto simp: run_count_def min_def)

lemma run_numbers_Suc:
  "run_numbers n0 (Suc k) = n0 # (if n0 = 60 then [] else run_numbers (Suc n0) k)"
  unfolding run_numbers_def run_count_Suc by (simp add: upt_conv_Cons)

lemma trial_returns_fake:
  "trial_returns E dataset_train cols shift_numbers n \<Longrightarrow>
     \<exists>fake. trial_fake E dataset_train cols shift_numbers n = Inr fake"
  by (simp add: trial_returns_def split: sum.splits)

lemma optimize_loop_post:
  assumes F: "F = (\<lambda>trial. objective E trial dataset_train dataset_val num_samples cols
                      database_name shift_numbers)"
    and sc: "sc = trial_score E dataset_train dataset_val cols shift_numbers"
    and fr: "fr = frozen E dataset_train dataset_val cols shift_numbers"
  shows "\<not> stop_flag st \<Longrightarrow>
    \<forall>n\<in>set (run_numbers (length (study_trials st)) k).
       trial_returns E dataset_train cols shift_numbers n \<Longrightarrow>
    foldl (scan_step (database_name @ ''.gz'')) (False, None) (trace st) = (False, h) \<Longrightarrow>
    \<exists>st'. optimize_loop F k st = Inr st' \<and>
          loop_post E fr sc (database_name @ ''.gz'')
            (run_numbers (length (study_trials st)) k) st h st'"
proof (induction k arbitrary: st h)
  case 0
  then show ?case by (simp add: run_numbers_0 loop_post_Nil)
next
  case (Suc k)
  let ?n = "length (study_trials st)"
  let ?name = "database_name @ ''.gz''"
  have "?n \<in> set (run_numbers ?n (Suc k))"
    by (simp add: run_numbers_Suc)
  with Suc.prems(2) have "trial_returns E dataset_train cols shift_numbers ?n"
    by blast
  then obtain fake where fake: "trial_fake E dataset_train cols shift_numbers ?n = Inr fake"
    using trial_returns_fake by blast
  define st1 where "st1 = after_trial F st"
  have v: "sc ?n = evaluate E fake dataset_val"
    using fake by (simp add: sc trial_score_def)
  have st1_eq: "st1 = after_trial (\<lambda>trial. objective E trial dataset_train dataset_val
                      num_samples cols database_name shift_numbers) st"
    by (simp add: st1_def F)
  note facts = after_trial_objective [OF fake refl v st1_eq]
  have "\<exists>x. F \<lparr>number = ?n, params = []\<rparr> st = Inr x"
    using fake by (simp add: F objective_unfold)
  then obtain x where "F \<lparr>number = ?n, params = []\<rparr> st = Inr x" ..
  with Suc.prems(1) have step: "optimize_loop F (Suc k) st = optimize_loop F k st1"
    unfolding st1_def by (rule optimize_loop_returns)
  have frn: "fr ?n = \<lparr>ft_number = ?n, ft_params = trial_suggestions E ?n, ft_value = Some (sc ?n)\<rparr>"
    by (simp add: fr sc frozen_def)
  have scan1: "foldl (scan_step ?name) (False, None) (trace st1) =
                 (False, if sc ?n > best_scores st then Some ?n else h)"
  proof -
    have "foldl (scan_step ?name) (False, None) (trace st1) =
            foldl (scan_step ?name) (False, h)
              (Evaluate fake dataset_val #
               (if sc ?n > best_scores st then [JoblibDump ?name] else []) @
               [TrialFinished ?n (sc ?n)])"
      using Suc.prems(3) by (simp add: facts(7) scan_trial_events v)
    also have "\<dots> = (False, if sc ?n > best_scores st then Some ?n else h)"
      by (simp add: scan_step_def)
    finally show ?thesis .
  qed
  have f1: "study_trials st1 = study_trials st @ [fr ?n]"
    by (simp add: facts(2) frn)
  show ?case
  proof (cases "?n = 60")
    case True
    then have "stop_flag st1" by (simp add: facts(1))
    then have "optimize_loop F k st1 = Inr st1" by (rule optimize_loop_stopped)
    moreover have "loop_post E fr sc ?name (?n # []) st h st1"
      by (rule loop_post_Cons [where sc = sc and fr = fr and n = "?n" and E = E,
                OF f1 facts(3,4,5,6) loop_post_Nil [OF scan1]])
    ultimately show ?thesis
      using step True by (simp add: run_numbers_Suc)
  next
    case False
    have ns: "run_numbers ?n (Suc k) = ?n # run_numbers (Suc ?n) k"
      using False by (simp add: run_numbers_Suc)
    have len1: "length (study_trials st1) = Suc ?n"
      by (simp add: f1)
    have "\<not> stop_flag st1"
      using False Suc.prems(1) by (simp add: facts(1))
    moreover have "\<forall>n\<in>set (run_numbers (length (study_trials st1)) k).
                     trial_returns E dataset_train cols shift_numbers n"
      using Suc.prems(2) by (simp add: ns len1)
    ultimately obtain st' where st': "optimize_loop F k st1 = Inr st'"
        "loop_post E fr sc ?name (run_numbers (length (study_trials st1)) k) st1
           (if sc ?n > best_scores st then Some ?n else h) st'"
      using Suc.IH [OF _ _ scan1] by blast
    have "loop_post E fr sc ?name (?n # run_numbers (Suc ?n) k) st h st'"
      by (rule loop_post_Cons [where sc = sc and fr = fr and n = "?n" and E = E,
                OF f1 facts(3,4,5,6)]) (use st'(2) len1 in simp)
    then show ?thesis
      using step st'(1) ns by simp
  qed
qed

section \<open>Lemmas on run\_TimeGAN\<close>

lemma loop_post_stop_flag:
  "loop_post E fr sc name ns (st\<lparr>stop_flag := b\<rparr>) h st' = loop_post E fr sc name ns st h st'"
  by (simp add: loop_post_def cong del: if_weak_cong)

lemma optimize_post:
  assumes F: "F = (\<lambda>trial. objective E trial dataset_train dataset_val num_samples cols
                      database_name shift_numbers)"
    and sc: "sc = trial_score E dataset_train dataset_val cols shift_numbers"
    and fr: "fr = frozen E dataset_train dataset_val cols shift_numbers"
    and ret: "\<forall>n\<in>set (run_numbers (length (study_trials st)) (nat n_trials)).
               trial_returns E dataset_train cols shift_numbers n"
    and scan: "foldl (scan_step (database_name @ ''.gz'')) (False, None) (trace st) = (False, h)"
  shows "\<exists>st'. optimize F n_trials st = Inr st' \<and>
          loop_post E fr sc (database_name @ ''.gz'')
            (run_numbers (length (study_trials st)) (nat n_trials)) st h st'"
proof -
  let ?st0 = "st\<lparr>stop_flag := False\<rparr>"
  have "\<exists>st'. optimize_loop F (nat n_trials) ?st0 = Inr st' \<and>
          loop_post E fr sc (database_name @ ''.gz'')
            (run_numbers (length (study_trials ?st0)) (nat n_trials)) ?st0 h st'"
    by (rule optimize_loop_post [OF F sc fr]) (use ret scan in simp_all)
  then show ?thesis
    by (simp add: optimize_def loop_post_stop_flag)
qed

lemma checkpoint_name_neq:
  "database_name @ ''.gz'' \<noteq> ''performance_'' @ database_name @ ''.txt''"
  "database_name @ ''.gz'' \<noteq> ''fake_data_'' @ database_name @ ''.csv''"
proof -
  have "length (database_name @ ''.gz'') \<noteq> length (''performance_'' @ database_name @ ''.txt'')"
    by simp
  then show "database_name @ ''.gz'' \<noteq> ''performance_'' @ database_name @ ''.txt''"
    by metis
  have "length (database_name @ ''.gz'') \<noteq> length (''fake_data_'' @ database_name @ ''.csv'')"
    by simp
  then show "database_name @ ''.gz'' \<noteq> ''fake_data_'' @ database_name @ ''.csv''"
    by metis
qed

lemma emits_Nil: "emits [] st = st"
  by (simp add: emits_def)

lemma plots_eq:
  "plots E names st =
     (case first_plot_error E names (study_trials st) of
        None \<Rightarrow>
          Inr (emits (map Plot (takeWhile (\<lambda>n. plot E n (study_trials st) = None) names)) st)
      | Some e \<Rightarrow>
          Inl (e, emits (map Plot (takeWhile (\<lambda>n. plot E n (study_trials st) = None) names)) st))"
proof (induction names arbitrary: st)
  case Nil
  show ?case by (simp add: emits_Nil)
next
  case (Cons n names)
  show ?case
  proof (cases "plot E n (study_trials st)")
    case None
    then show ?thesis
      by (simp add: Cons.IH emit_emits emits_emits emits_fields split: option.splits)
  next
    case (Some e)
    then show ?thesis by (simp add: emits_Nil)
  qed
qed

lemma scan_other:
  "scan_step name s (Plot n) = s"
  "scan_step name s (JoblibLoad f) = s"
  "scan_step name s (CutData d sl) = s"
  "scan_step name s (Timegan x p) = s"
  "scan_step name s (ToCsv f) = s"
  by (simp_all add: scan_step_def)

lemma scan_plots: "foldl (scan_step name) s (map Plot names) = s"
  by (induction names) (simp_all add: scan_other)

lemma run_TimeGAN_raised_in_optimize:
  assumes "preprocess_data E (real_data_loading E) database_name shift_numbers0 =
             (dataset_train, cols, dataset_val, dataset, shift_numbers)"
    and "optimize (\<lambda>trial. objective E trial dataset_train dataset_val num_samples cols
                      database_name shift_numbers) n_trials st = Inl x"
  shows "run_TimeGAN E num_samples n_trials database_name shift_numbers0 st = Inl x"
  using assms by (simp add: run_TimeGAN_def)

lemma run_TimeGAN_after_optimize:
  assumes "preprocess_data E (real_data_loading E) database_name shift_numbers0 =
             (dataset_train, cols, dataset_val, dataset, shift_numbers)"
    and "optimize (\<lambda>trial. objective E trial dataset_train dataset_val num_samples cols
                      database_name shift_numbers) n_trials st = Inr st1"
    and "stf = final_state (run_TimeGAN E num_samples n_trials database_name shift_numbers0 st)"
  shows "study_trials stf = study_trials st1"
    and "best_scores stf = best_scores st1"
    and "files stf (database_name @ ''.gz'') = files st1 (database_name @ ''.gz'')"
    and "foldl (scan_step name) s (trace stf) = foldl (scan_step name) s (trace st1)"
  using assms checkpoint_name_neq [of database_name]
  by (auto simp: run_TimeGAN_def plots_eq final_state_def joblib_load_def emit_emits
        emits_emits emits_fields emits_def scan_other scan_plots Let_def
        split: sum.splits option.splits file_content.splits)

lemma run_TimeGAN_plot_raises:
  assumes "preprocess_data E (real_data_loading E) database_name shift_numbers0 =
             (dataset_train, cols, dataset_val, dataset, shift_numbers)"
    and "optimize (\<lambda>trial. objective E trial dataset_train dataset_val num_samples cols
                      database_name shift_numbers) n_trials st = Inr st1"
    and "best_trial (study_trials st1) = Inr best"
    and "first_plot_error E plot_names (study_trials st1) = Some e"
    and "r = run_TimeGAN E num_samples n_trials database_name shift_numbers0 st"
  shows "raised r = Some e"
    and "files (final_state r) (''fake_data_'' @ database_name @ ''.csv'') =
           files st1 (''fake_data_'' @ database_name @ ''.csv'')"
  using assms
  by (simp_all add: run_TimeGAN_def plots_eq final_state_def raised_def emits_fields Let_def)

lemma run_TimeGAN_generate:
  assumes "preprocess_data E (real_data_loading E) database_name shift_numbers0 =
             (dataset_train, cols, dataset_val, dataset, shift_numbers)"
    and "optimize (\<lambda>trial. objective E trial dataset_train dataset_val num_samples cols
                      database_name shift_numbers) n_trials st = Inr st1"
    and "best_trial (study_trials st1) = Inr best"
    and "first_plot_error E plot_names (study_trials st1) = None"
    and "files st1 (database_name @ ''.gz'') = Some JoblibTimegan"
    and "objective_seq_len st1 = Some seq_len"
    and "objective_parameters st1 = Some parameters"
    and "r = run_TimeGAN E num_samples n_trials database_name shift_numbers0 st"
  shows "JoblibLoad (database_name @ ''.gz'') \<in> set (trace (final_state r)) \<and>
         (case postprocess_data ''eval'' (timegan E (cut_data E dataset seq_len) parameters)
                cols seq_len shift_numbers of
           Inl e \<Rightarrow> raised r = Some e
         | Inr fake \<Rightarrow>
             raised r = None \<and>
             files (final_state r) (''fake_data_'' @ database_name @ ''.csv'') =
               Some (CsvFile fake))"
  using assms checkpoint_name_neq [of database_name]
  by (simp add: run_TimeGAN_def plots_eq final_state_def raised_def joblib_load_def emit_emits
        emits_emits emits_fields emits_def Let_def split: sum.splits)

lemma run_TimeGAN_no_checkpoint:
  assumes "preprocess_data E (real_data_loading E) database_name shift_numbers0 =
             (dataset_train, cols, dataset_val, dataset, shift_numbers)"
    and "optimize (\<lambda>trial. objective E trial dataset_train dataset_val num_samples cols
                      database_name shift_numbers) n_trials st = Inr st1"
    and "best_trial (study_trials st1) = Inr best"
    and "first_plot_error E plot_names (study_trials st1) = None"
    and "files st1 (database_name @ ''.gz'') = None"
    and "r = run_TimeGAN E num_samples n_trials database_name shift_numbers0 st"
  shows "raised r = Some FileNotFoundError"
    and "files (final_state r) (''fake_data_'' @ database_name @ ''.csv'') =
           files st1 (''fake_data_'' @ database_name @ ''.csv'')"
  using assms checkpoint_name_neq [of database_name]
  by (simp_all add: run_TimeGAN_def plots_eq final_state_def raised_def joblib_load_def
        emit_emits emits_emits emits_fields emits_def Let_def split: sum.splits)

lemma best_trial_returns:
  assumes "t \<in> set ts" and "ft_value t \<noteq> None"
  shows "\<exists>best. best_trial ts = Inr best"
proof -
  from assms have "filter (\<lambda>t. ft_value t \<noteq> None) ts \<noteq> []"
    by (auto simp: filter_empty_conv)
  then show ?thesis
    by (simp add: best_trial_def split: list.splits)
qed

lemma demo_preprocess:
  "preprocess_data (demo_env score) (real_data_loading (demo_env score)) database_name
     shift_numbers = (demo_frame, [''milk''], demo_frame, demo_frame, shift_numbers)"
  by (simp add: demo_env_def demo_frame_def)

lemma demo_pick_hidden:
  "pick (demo_env score) n ''hidden_dim'' [PyInt 6, PyInt 12, PyInt 24, PyInt 48] =
     PyInt (demo_hidden n)"
proof -
  have "n mod 4 < 4" by simp
  then have "n mod 4 \<in> {0, 1, 2, 3}" by auto
  then show ?thesis
    by (auto simp: pick_def demo_env_def demo_hidden_def)
qed

lemma demo_trial_fake:
  "trial_fake (demo_env score) demo_frame [''milk''] [0] n =
     Inr \<lparr>df_columns = [''milk''], df_rows = [[real_of_int (demo_hidden n)]]\<rparr>"
proof -
  have "map_of (trial_parameters (demo_env score) n) ''hidden_dim'' = Some (PyInt (demo_hidden n))"
    by (simp add: trial_parameters_def demo_pick_hidden)
  then have "timegan (demo_env score) (trial_data (demo_env score) demo_frame n)
               (trial_parameters (demo_env score) n) = [[[real_of_int (demo_hidden n)]]]"
    by (simp add: demo_env_def)
  then show ?thesis
    by (simp add: trial_fake_def postprocess_data_def shape0_def shape1_def pd_DataFrame_def)
qed

lemma demo_trial_returns: "trial_returns (demo_env score) demo_frame [''milk''] [0] n"
  by (simp add: trial_returns_def demo_trial_fake)

lemma demo_trial_score:
  "trial_score (demo_env score) demo_frame demo_frame [''milk''] [0] n =
     score (real_of_int (demo_hidden n))"
  by (simp add: trial_score_def demo_trial_fake) (simp add: demo_env_def)

section \<open>Lemmas on a run from a fresh process\<close>

lemma best_of_none_better:
  "\<forall>n\<in>set ns. sc n \<le> b \<Longrightarrow> best_of sc ns (b, h) = (b, h)"
  by (induction ns) simp_all

lemma first_best_split:
  assumes "run_numbers n0 k = pre @ m # post"
    and "\<forall>n\<in>set pre. sc n < sc m" and "\<forall>n\<in>set post. sc n \<le> sc m"
  shows "first_best sc (run_numbers n0 k) m"
proof -
  have "sorted_wrt (<) (pre @ m # post)"
    using assms(1) [symmetric] by (simp add: run_numbers_def)
  then have after: "\<forall>n\<in>set post. m < n"
    by (simp add: sorted_wrt_append)
  have "sc n \<le> sc m \<and> (n < m \<longrightarrow> sc n < sc m)" if "n \<in> set (pre @ m # post)" for n
    using that assms(2,3) after by auto
  then show ?thesis
    unfolding first_best_def assms(1) by (simp add: list_all_iff)
qed

lemma optimize_fresh:
  assumes F: "F = (\<lambda>trial. objective E trial dataset_train dataset_val num_samples cols
                      database_name shift_numbers)"
    and sc: "sc = trial_score E dataset_train dataset_val cols shift_numbers"
    and fr: "fr = frozen E dataset_train dataset_val cols shift_numbers"
    and ns: "ns = run_numbers (length stored) (nat n_trials)"
    and ret: "\<forall>n\<in>set ns. trial_returns E dataset_train cols shift_numbers n"
  shows "\<exists>st1. optimize F n_trials (fresh_process fs stored) = Inr st1 \<and>
           study_trials st1 = stored @ map fr ns \<and>
           (if \<exists>n\<in>set ns. 0 < sc n
            then \<exists>m. first_best sc ns m \<and> 0 < sc m \<and> best_scores st1 = sc m \<and>
                   checkpoint_trial (database_name @ ''.gz'') (trace st1) = Some m \<and>
                   files st1 = fs(database_name @ ''.gz'' \<mapsto> JoblibTimegan) \<and>
                   objective_seq_len st1 = Some (trial_seq_len E m) \<and>
                   objective_parameters st1 = Some (trial_parameters E m)
            else best_scores st1 = 0 \<and>
                 checkpoint_trial (database_name @ ''.gz'') (trace st1) = None \<and>
                 files st1 = fs \<and> objective_seq_len st1 = None \<and>
                 objective_parameters st1 = None)"
proof -
  let ?st = "fresh_process fs stored"
  let ?name = "database_name @ ''.gz''"
  let ?R = "best_of sc ns (0, None)"
  have fresh: "study_trials ?st = stored" "best_scores ?st = 0" "files ?st = fs"
      "objective_seq_len ?st = None" "objective_parameters ?st = None" "trace ?st = []"
    by (simp_all add: fresh_process_def)
  have "\<exists>st'. optimize F n_trials ?st = Inr st' \<and>
          loop_post E fr sc ?name (run_numbers (length (study_trials ?st)) (nat n_trials))
            ?st None st'"
    by (rule optimize_post [OF F sc fr]) (use ret ns fresh in simp_all)
  then obtain st1 where opt: "optimize F n_trials ?st = Inr st1"
    and post: "loop_post E fr sc ?name ns ?st None st1"
    using ns fresh(1) by auto
  from post have p:
    "study_trials st1 = stored @ map fr ns"
    "best_scores st1 = fst ?R"
    "checkpoint_trial ?name (trace st1) = snd ?R"
    "files st1 = (if 0 < fst ?R then fs(?name \<mapsto> JoblibTimegan) else fs)"
    "objective_seq_len st1 = (if 0 < fst ?R then Some (trial_seq_len E (the (snd ?R))) else None)"
    "objective_parameters st1 =
       (if 0 < fst ?R then Some (trial_parameters E (the (snd ?R))) else None)"
    by (simp_all add: loop_post_def fresh checkpoint_trial_def)
  show ?thesis
  proof (cases "\<exists>n\<in>set ns. 0 < sc n")
    case True
    then obtain n where n: "n \<in> set ns" "0 < sc n" by blast
    from best_of_ge_all [OF n(1), of sc 0 None] n(2) have pos: "0 < fst ?R" by simp
    from best_of_holder [OF pos] obtain pre m post where
      m: "ns = pre @ m # post" "?R = (sc m, Some m)"
         "\<forall>n\<in>set pre. sc n < sc m" "\<forall>n\<in>set post. sc n \<le> sc m"
      by blast
    have "first_best sc ns m"
      unfolding ns by (rule first_best_split [OF m(1) [unfolded ns] m(3,4)])
    moreover have "0 < sc m" using pos m(2) by simp
    ultimately show ?thesis
      using True opt p pos m(2) by auto
  next
    case False
    then have "\<forall>n\<in>set ns. sc n \<le> 0" by (auto simp: not_less)
    then have "?R = (0, None)" by (rule best_of_none_better)
    then show ?thesis
      using False opt p by simp
  qed
qed


lemma fold_keeps_best:
  "\<forall>t\<in>set cs. the (ft_value t) \<le> the (ft_value c) \<Longrightarrow>
     fold (\<lambda>t b. if the (ft_value b) < the (ft_value t) then t else b) cs c = c"
  by (induction cs) (simp_all add: not_less [symmetric])

lemma fold_finds_best:
  "\<forall>t\<in>set pre. the (ft_value t) < the (ft_value x) \<Longrightarrow>
   the (ft_value c) < the (ft_value x) \<Longrightarrow>
   \<forall>t\<in>set post. the (ft_value t) \<le> the (ft_value x) \<Longrightarrow>
     fold (\<lambda>t b. if the (ft_value b) < the (ft_value t) then t else b) (pre @ x # post) c = x"
proof (induction pre arbitrary: c)
  case Nil
  then show ?case by (simp add: fold_keeps_best)
next
  case (Cons p pre)
  then show ?case by simp
qed

lemma best_trial_run:
  assumes fb: "first_best sc (run_numbers n0 k) m"
    and val: "\<And>n. ft_value (fr n) = Some (sc n)"
  shows "best_trial (map fr (run_numbers n0 k)) = Inr (fr m)"
proof -
  from fb have "m \<in> set (run_numbers n0 k)" by (simp add: first_best_def)
  then obtain pre post where split: "run_numbers n0 k = pre @ m # post"
    by (auto dest: split_list)
  have "sorted_wrt (<) (pre @ m # post)"
    using split [symmetric] by (simp add: run_numbers_def)
  then have before: "\<forall>n\<in>set pre. n < m"
    by (simp add: sorted_wrt_append)
  from fb have all: "\<forall>n\<in>set (pre @ m # post). sc n \<le> sc m \<and> (n < m \<longrightarrow> sc n < sc m)"
    unfolding first_best_def split by (simp add: list_all_iff)
  have pre: "\<forall>t\<in>set (map fr pre). the (ft_value t) < the (ft_value (fr m))"
    using all before by (auto simp: val)
  have post: "\<forall>t\<in>set (map fr post). the (ft_value t) \<le> the (ft_value (fr m))"
    using all by (auto simp: val)
  have complete: "filter (\<lambda>t. ft_value t \<noteq> None) (map fr ns) = map fr ns" for ns
    by (induction ns) (simp_all add: val)
  have bt: "best_trial (map fr ns) =
              (case map fr ns of
                 [] \<Rightarrow> Inl ValueError
               | c # cs \<Rightarrow>
                   Inr (fold (\<lambda>t b. if the (ft_value b) < the (ft_value t) then t else b) cs c))"
    for ns
    by (simp only: best_trial_def complete)
  note bt_run = bt [of "run_numbers n0 k", unfolded split]
  show ?thesis
  proof (cases pre)
    case Nil
    with post bt_run show ?thesis
      by (simp add: split fold_keeps_best)
  next
    case (Cons p pre')
    with pre have 1: "\<forall>t\<in>set (map fr pre'). the (ft_value t) < the (ft_value (fr m))"
      and 2: "the (ft_value (fr p)) < the (ft_value (fr m))"
      by simp_all
    have "fold (\<lambda>t b. if the (ft_value b) < the (ft_value t) then t else b)
            (map fr pre' @ fr m # map fr post) (fr p) = fr m"
      by (rule fold_finds_best [OF 1 2 post])
    with bt_run show ?thesis
      by (simp add: split Cons)
  qed
qed

lemma run_TimeGAN_fresh:
  assumes pre: "preprocess_data E (real_data_loading E) database_name shift_numbers0 =
             (dataset_train, cols, dataset_val, dataset, shift_numbers)"
    and sc: "sc = trial_score E dataset_train dataset_val cols shift_numbers"
    and fr: "fr = frozen E dataset_train dataset_val cols shift_numbers"
    and ns: "ns = run_numbers (length stored) (nat n_trials)"
    and ret: "\<forall>n\<in>set ns. trial_returns E dataset_train cols shift_numbers n"
    and r: "r = run_TimeGAN E num_samples n_trials database_name shift_numbers0
                  (fresh_process fs stored)"
  shows "study_trials (final_state r) = stored @ map fr ns \<and>
         (if \<exists>n\<in>set ns. 0 < sc n
          then \<exists>m. first_best sc ns m \<and> 0 < sc m \<and> best_scores (final_state r) = sc m \<and>
                 checkpoint_trial (database_name @ ''.gz'') (trace (final_state r)) = Some m \<and>
                 files (final_state r) (database_name @ ''.gz'') = Some JoblibTimegan \<and>
                 (case first_plot_error E plot_names (stored @ map fr ns) of
                    Some e \<Rightarrow>
                      raised r = Some e \<and>
                      files (final_state r) (''fake_data_'' @ database_name @ ''.csv'') =
                        fs (''fake_data_'' @ database_name @ ''.csv'')
                  | None \<Rightarrow>
                      JoblibLoad (database_name @ ''.gz'') \<in> set (trace (final_state r)) \<and>
                      (case postprocess_data ''eval''
                              (timegan E (cut_data E dataset (trial_seq_len E m))
                                 (trial_parameters E m))
                              cols (trial_seq_len E m) shift_numbers of
                         Inl e \<Rightarrow> raised r = Some e
                       | Inr fake \<Rightarrow>
                           raised r = None \<and>
                           files (final_state r) (''fake_data_'' @ database_name @ ''.csv'') =
                             Some (CsvFile fake)))
          else best_scores (final_state r) = 0 \<and>
               checkpoint_trial (database_name @ ''.gz'') (trace (final_state r)) = None \<and>
               files (final_state r) (database_name @ ''.gz'') = fs (database_name @ ''.gz'') \<and>
               (ns \<noteq> [] \<longrightarrow>
                  (case first_plot_error E plot_names (stored @ map fr ns) of
                     Some e \<Rightarrow>
                       raised r = Some e \<and>
                       files (final_state r) (''fake_data_'' @ database_name @ ''.csv'') =
                         fs (''fake_data_'' @ database_name @ ''.csv'')
                   | None \<Rightarrow>
                       fs (database_name @ ''.gz'') = None \<longrightarrow>
                       raised r = Some FileNotFoundError \<and>
                       files (final_state r) (''fake_data_'' @ database_name @ ''.csv'') =
                         fs (''fake_data_'' @ database_name @ ''.csv''))))"
proof -
  let ?F = "\<lambda>trial. objective E trial dataset_train dataset_val num_samples cols
                      database_name shift_numbers"
  let ?name = "database_name @ ''.gz''"
  from optimize_fresh [where fs = fs and num_samples = num_samples
      and database_name = database_name, OF refl sc fr ns ret]
  obtain st1 where opt: "optimize ?F n_trials (fresh_process fs stored) = Inr st1"
    and trials: "study_trials st1 = stored @ map fr ns"
    and best: "if \<exists>n\<in>set ns. 0 < sc n
            then \<exists>m. first_best sc ns m \<and> 0 < sc m \<and> best_scores st1 = sc m \<and>
                   checkpoint_trial ?name (trace st1) = Some m \<and>
                   files st1 = fs(?name \<mapsto> JoblibTimegan) \<and>
                   objective_seq_len st1 = Some (trial_seq_len E m) \<and>
                   objective_parameters st1 = Some (trial_parameters E m)
            else best_scores st1 = 0 \<and>
                 checkpoint_trial ?name (trace st1) = None \<and>
                 files st1 = fs \<and> objective_seq_len st1 = None \<and>
                 objective_parameters st1 = None"
    by blast
  have fin: "final_state r = final_state (run_TimeGAN E num_samples n_trials database_name
               shift_numbers0 (fresh_process fs stored))"
    by (simp add: r)
  note after = run_TimeGAN_after_optimize [OF pre opt fin]
  have cp: "checkpoint_trial ?name (trace (final_state r)) = checkpoint_trial ?name (trace st1)"
    by (simp add: checkpoint_trial_def after(4))
  have bt: "\<exists>best. best_trial (study_trials st1) = Inr best" if "ns \<noteq> []"
  proof -
    from that obtain n where "n \<in> set ns" by (cases ns) auto
    then have "fr n \<in> set (study_trials st1)" by (simp add: trials)
    moreover have "ft_value (fr n) \<noteq> None" by (simp add: fr frozen_def)
    ultimately show ?thesis by (rule best_trial_returns)
  qed
  show ?thesis
  proof (cases "\<exists>n\<in>set ns. 0 < sc n")
    case True
    with best obtain m where m: "first_best sc ns m" "0 < sc m" "best_scores st1 = sc m"
        "checkpoint_trial ?name (trace st1) = Some m"
        "files st1 = fs(?name \<mapsto> JoblibTimegan)"
        "objective_seq_len st1 = Some (trial_seq_len E m)"
        "objective_parameters st1 = Some (trial_parameters E m)"
      by auto
    from True have "ns \<noteq> []" by auto
    with bt obtain best where b: "best_trial (study_trials st1) = Inr best" by blast
    have f: "files st1 ?name = Some JoblibTimegan" by (simp add: m(5))
    have csv: "files st1 (''fake_data_'' @ database_name @ ''.csv'') =
                 fs (''fake_data_'' @ database_name @ ''.csv'')"
      using checkpoint_name_neq(2) [of database_name] by (simp add: m(5))
    have gen: "case first_plot_error E plot_names (stored @ map fr ns) of
                 Some e \<Rightarrow>
                   raised r = Some e \<and>
                   files (final_state r) (''fake_data_'' @ database_name @ ''.csv'') =
                     fs (''fake_data_'' @ database_name @ ''.csv'')
               | None \<Rightarrow>
                   JoblibLoad ?name \<in> set (trace (final_state r)) \<and>
                   (case postprocess_data ''eval''
                           (timegan E (cut_data E dataset (trial_seq_len E m))
                              (trial_parameters E m))
                           cols (trial_seq_len E m) shift_numbers of
                      Inl e \<Rightarrow> raised r = Some e
                    | Inr fake \<Rightarrow>
                        raised r = None \<and>
                        files (final_state r) (''fake_data_'' @ database_name @ ''.csv'') =
                          Some (CsvFile fake))"
    proof (cases "first_plot_error E plot_names (stored @ map fr ns)")
      case None
      then have "first_plot_error E plot_names (study_trials st1) = None"
        by (simp add: trials)
      from run_TimeGAN_generate [OF pre opt b this f m(6) m(7) r] None show ?thesis
        by simp
    next
      case (Some e)
      then have "first_plot_error E plot_names (study_trials st1) = Some e"
        by (simp add: trials)
      from run_TimeGAN_plot_raises [OF pre opt b this r] csv Some show ?thesis
        by simp
    qed
    have "first_best sc ns m \<and> 0 < sc m \<and> best_scores (final_state r) = sc m \<and>
          checkpoint_trial ?name (trace (final_state r)) = Some m \<and>
          files (final_state r) ?name = Some JoblibTimegan"
      using m f by (simp add: after cp)
    with gen True trials show ?thesis
      by (auto simp: after(1))
  next
    case False
    with best have n: "best_scores st1 = 0" "checkpoint_trial ?name (trace st1) = None"
        "files st1 = fs"
      by auto
    have "case first_plot_error E plot_names (stored @ map fr ns) of
            Some e \<Rightarrow>
              raised r = Some e \<and>
              files (final_state r) (''fake_data_'' @ database_name @ ''.csv'') =
                fs (''fake_data_'' @ database_name @ ''.csv'')
          | None \<Rightarrow>
              fs ?name = None \<longrightarrow>
              raised r = Some FileNotFoundError \<and>
              files (final_state r) (''fake_data_'' @ database_name @ ''.csv'') =
                fs (''fake_data_'' @ database_name @ ''.csv'')"
      if "ns \<noteq> []"
    proof -
      from bt that obtain best where b: "best_trial (study_trials st1) = Inr best" by blast
      show ?thesis
      proof (cases "first_plot_error E plot_names (stored @ map fr ns)")
        case None
        then have p: "first_plot_error E plot_names (study_trials st1) = None"
          by (simp add: trials)
        have "raised r = Some FileNotFoundError \<and>
              files (final_state r) (''fake_data_'' @ database_name @ ''.csv'') =
                fs (''fake_data_'' @ database_name @ ''.csv'')"
          if "fs ?name = None"
        proof -
          have "files st1 ?name = None" using that n(3) by simp
          from run_TimeGAN_no_checkpoint [OF pre opt b p this r] n(3) show ?thesis by simp
        qed
        with None show ?thesis by simp
      next
        case (Some e)
        then have "first_plot_error E plot_names (study_trials st1) = Some e"
          by (simp add: trials)
        from run_TimeGAN_plot_raises [OF pre opt b this r] n(3) Some show ?thesis
          by simp
      qed
    qed
    with False n trials show ?thesis
      by (simp add: after cp)
  qed
qed

lemma frozen_number:
  "map ft_number (map (frozen E dataset_train dataset_val cols shift_numbers) ns) = ns"
  by (induction ns) (simp_all add: frozen_def)

lemma demo_run_numbers:
  "run_numbers 0 3 = [0, 1, 2]" "run_numbers 0 2 = [0, 1]" "length (run_numbers 0 62) = 61"
  by (simp_all add: run_numbers_def run_count_def upt_rec)

section \<open>C3: the number of trials of a run\<close>

text \<open>
  C3, as stated: for every \<open>n_trials\<close>, \<open>run_TimeGAN\<close> runs exactly \<open>n_trials\<close> trials. In a
  fresh process with a new storage and \<open>n_trials = 62\<close> it runs 61: the trial with number
  60 calls \<^verbatim>\<open>study.stop()\<close> (lines 66 and 67), and the loop ends after it.
\<close>

theorem run_TimeGAN_trial_count_counterexample:
  "length (study_trials (final_state long_run)) = 61"
proof -
  have "study_trials (final_state long_run) =
          [] @ map (frozen (demo_env zero_score) demo_frame demo_frame [''milk''] [0])
                 (run_numbers (length ([]::frozen_trial list)) (nat 62))"
    using run_TimeGAN_fresh [OF demo_preprocess refl refl refl _ long_run_def]
    by (simp add: demo_trial_returns)
  then show ?thesis by (simp add: demo_run_numbers)
qed

text \<open>
  C3, amended: in a fresh process whose storage holds \<open>n0\<close> trials, and when every trial
  returns, \<open>run_TimeGAN\<close> runs the trials with the numbers \<open>n0, n0 + 1, \<dots>\<close>, and as many of
  them as \<open>n_trials\<close> says (none for a negative \<open>n_trials\<close>), except that the trial with
  number 60 is the last one: with \<open>n0 \<le> 60\<close> it runs the smaller of \<open>n_trials\<close> and
  \<open>61 - n0\<close> trials, with \<open>n0 > 60\<close> it runs \<open>n_trials\<close> trials.
\<close>

theorem run_TimeGAN_trial_count:
  assumes "preprocess_data E (real_data_loading E) database_name shift_numbers0 =
             (dataset_train, cols, dataset_val, dataset, shift_numbers)"
    and "\<forall>n\<in>set (run_numbers (length stored) (nat n_trials)).
           trial_returns E dataset_train cols shift_numbers n"
  shows "map ft_number
           (drop (length stored)
              (study_trials (final_state (run_TimeGAN E num_samples n_trials database_name
                 shift_numbers0 (fresh_process fs stored))))) =
           run_numbers (length stored) (nat n_trials) \<and>
         run_numbers (length stored) (nat n_trials) =
           [length stored ..<
              length stored + (if length stored \<le> 60 then min (nat n_trials) (61 - length stored)
                               else nat n_trials)]"
proof -
  have "study_trials (final_state (run_TimeGAN E num_samples n_trials database_name
                 shift_numbers0 (fresh_process fs stored))) =
        stored @ map (frozen E dataset_train dataset_val cols shift_numbers)
                   (run_numbers (length stored) (nat n_trials))"
    using run_TimeGAN_fresh [OF assms(1) refl refl refl assms(2) refl] by simp
  then have "map ft_number
           (drop (length stored)
              (study_trials (final_state (run_TimeGAN E num_samples n_trials database_name
                 shift_numbers0 (fresh_process fs stored))))) =
           run_numbers (length stored) (nat n_trials)"
    by (simp only: append_eq_conv_conj drop_append frozen_number drop_all order_refl
          diff_self_eq_0 drop_0 append_Nil)
  moreover have "run_numbers (length stored) (nat n_trials) =
           [length stored ..<
              length stored + (if length stored \<le> 60 then min (nat n_trials) (61 - length stored)
                               else nat n_trials)]"
    by (simp add: run_numbers_def run_count_def)
  ultimately show ?thesis ..
qed

theorem run_TimeGAN_trial_count_witness:
  "map ft_number (study_trials (final_state zero_run)) = [0, 1]"
  using run_TimeGAN_trial_count [where stored = "[]" and n_trials = 2 and fs = no_files
      and num_samples = 500, OF demo_preprocess [of zero_score "''db''" "[0]"]]
  by (simp add: demo_trial_returns zero_run_def demo_run_numbers)

lemma objective_dumps:
  "dumps (new_events st (state_after (objective E tr dataset_train dataset_val num_samples cols
       database_name shift_numbers st))) =
     (if trial_returns E dataset_train cols shift_numbers (number tr) \<and>
         best_scores st < trial_score E dataset_train dataset_val cols shift_numbers (number tr)
      then [database_name @ ''.gz''] else [])"
  by (simp add: objective_new_events dumps_append trial_events_observed trial_returns_def
        trial_score_def split: sum.splits)

lemma run_TimeGAN_fresh_none:
  assumes "preprocess_data E (real_data_loading E) database_name shift_numbers0 =
             (dataset_train, cols, dataset_val, dataset, shift_numbers)"
    and "\<forall>n\<in>set (run_numbers (length stored) (nat n_trials)).
           trial_returns E dataset_train cols shift_numbers n"
    and "\<forall>n\<in>set (run_numbers (length stored) (nat n_trials)).
           trial_score E dataset_train dataset_val cols shift_numbers n \<le> 0"
    and "r = run_TimeGAN E num_samples n_trials database_name shift_numbers0
               (fresh_process fs stored)"
  shows "study_trials (final_state r) =
           stored @ map (frozen E dataset_train dataset_val cols shift_numbers)
                      (run_numbers (length stored) (nat n_trials))"
    and "best_scores (final_state r) = 0"
    and "checkpoint_trial (database_name @ ''.gz'') (trace (final_state r)) = None"
    and "files (final_state r) (database_name @ ''.gz'') = fs (database_name @ ''.gz'')"
    and "run_numbers (length stored) (nat n_trials) \<noteq> [] \<Longrightarrow>
         (case first_plot_error E plot_names
                 (stored @ map (frozen E dataset_train dataset_val cols shift_numbers)
                             (run_numbers (length stored) (nat n_trials))) of
            Some e \<Rightarrow>
              raised r = Some e \<and>
              files (final_state r) (''fake_data_'' @ database_name @ ''.csv'') =
                fs (''fake_data_'' @ database_name @ ''.csv'')
          | None \<Rightarrow>
              fs (database_name @ ''.gz'') = None \<longrightarrow>
              raised r = Some FileNotFoundError \<and>
              files (final_state r) (''fake_data_'' @ database_name @ ''.csv'') =
                fs (''fake_data_'' @ database_name @ ''.csv''))"
proof -
  have no: "\<not> (\<exists>n\<in>set (run_numbers (length stored) (nat n_trials)).
              0 < trial_score E dataset_train dataset_val cols shift_numbers n)"
    using assms(3) by (auto simp: not_less)
  note all = run_TimeGAN_fresh [OF assms(1) refl refl refl assms(2) assms(4),
      unfolded if_not_P [OF no]]
  from all show "study_trials (final_state r) =
           stored @ map (frozen E dataset_train dataset_val cols shift_numbers)
                      (run_numbers (length stored) (nat n_trials))"
    and "best_scores (final_state r) = 0"
    and "checkpoint_trial (database_name @ ''.gz'') (trace (final_state r)) = None"
    and "files (final_state r) (database_name @ ''.gz'') = fs (database_name @ ''.gz'')"
    by blast+
  from all show "run_numbers (length stored) (nat n_trials) \<noteq> [] \<Longrightarrow>
         (case first_plot_error E plot_names
                 (stored @ map (frozen E dataset_train dataset_val cols shift_numbers)
                             (run_numbers (length stored) (nat n_trials))) of
            Some e \<Rightarrow>
              raised r = Some e \<and>
              files (final_state r) (''fake_data_'' @ database_name @ ''.csv'') =
                fs (''fake_data_'' @ database_name @ ''.csv'')
          | None \<Rightarrow>
              fs (database_name @ ''.gz'') = None \<longrightarrow>
              raised r = Some FileNotFoundError \<and>
              files (final_state r) (''fake_data_'' @ database_name @ ''.csv'') =
                fs (''fake_data_'' @ database_name @ ''.csv''))"
    by blast
qed

lemma run_TimeGAN_fresh_some:
  assumes "preprocess_data E (real_data_loading E) database_name shift_numbers0 =
             (dataset_train, cols, dataset_val, dataset, shift_numbers)"
    and "\<forall>n\<in>set (run_numbers (length stored) (nat n_trials)).
           trial_returns E dataset_train cols shift_numbers n"
    and "\<exists>n\<in>set (run_numbers (length stored) (nat n_trials)).
           0 < trial_score E dataset_train dataset_val cols shift_numbers n"
    and "r = run_TimeGAN E num_samples n_trials database_name shift_numbers0
               (fresh_process fs stored)"
  shows "\<exists>m. first_best (trial_score E dataset_train dataset_val cols shift_numbers)
                (run_numbers (length stored) (nat n_trials)) m \<and>
             0 < trial_score E dataset_train dataset_val cols shift_numbers m \<and>
             best_scores (final_state r) =
               trial_score E dataset_train dataset_val cols shift_numbers m \<and>
             checkpoint_trial (database_name @ ''.gz'') (trace (final_state r)) = Some m \<and>
             files (final_state r) (database_name @ ''.gz'') = Some JoblibTimegan \<and>
             (case first_plot_error E plot_names
                     (stored @ map (frozen E dataset_train dataset_val cols shift_numbers)
                                 (run_numbers (length stored) (nat n_trials))) of
                Some e \<Rightarrow>
                  raised r = Some e \<and>
                  files (final_state r) (''fake_data_'' @ database_name @ ''.csv'') =
                    fs (''fake_data_'' @ database_name @ ''.csv'')
              | None \<Rightarrow>
                  JoblibLoad (database_name @ ''.gz'') \<in> set (trace (final_state r)) \<and>
                  (case postprocess_data ''eval''
                          (timegan E (cut_data E dataset (trial_seq_len E m))
                             (trial_parameters E m))
                          cols (trial_seq_len E m) shift_numbers of
                     Inl e \<Rightarrow> raised r = Some e
                   | Inr fake \<Rightarrow>
                       raised r = None \<and>
                       files (final_state r) (''fake_data_'' @ database_name @ ''.csv'') =
                         Some (CsvFile fake)))"
  using run_TimeGAN_fresh [OF assms(1) refl refl refl assms(2) assms(4),
      unfolded if_P [OF assms(3)]]
  by blast

lemma demo_peak_first_best:
  "first_best (trial_score (demo_env peak_score) demo_frame demo_frame [''milk''] [0])
     (run_numbers 0 3) m \<longleftrightarrow> m = 1"
  by (auto simp: demo_run_numbers first_best_def demo_trial_score demo_hidden_def peak_score_def)

lemma demo_peak_positive:
  "\<exists>n\<in>set (run_numbers 0 3).
     0 < trial_score (demo_env peak_score) demo_frame demo_frame [''milk''] [0] n"
  by (simp add: demo_run_numbers demo_trial_score peak_score_def)

lemma demo_zero_not_positive:
  "\<not> (\<exists>n\<in>set ns. 0 < trial_score (demo_env zero_score) demo_frame demo_frame [''milk''] [0] n)"
  by (simp add: demo_trial_score zero_score_def)

lemma demo_plot_env: "plot (demo_env score) = demo_plot"
  by (simp add: demo_env_def)

lemma demo_zero_plots:
  "first_plot_error (demo_env zero_score) plot_names
     ([] @ map (frozen (demo_env zero_score) demo_frame demo_frame [''milk''] [0])
             (run_numbers (length ([]::frozen_trial list)) (nat 2))) = Some RuntimeError"
  by (simp add: demo_run_numbers plot_names_def demo_plot_env demo_plot_def frozen_def
        demo_trial_score zero_score_def List.map_filter_simps)

lemma demo_peak_plots:
  "first_plot_error (demo_env peak_score) plot_names
     ([] @ map (frozen (demo_env peak_score) demo_frame demo_frame [''milk''] [0])
             (run_numbers (length ([]::frozen_trial list)) (nat 3))) = None"
  by (simp add: demo_run_numbers plot_names_def demo_plot_env demo_plot_def frozen_def
        demo_trial_score peak_score_def demo_hidden_def List.map_filter_simps)

lemma demo_zero_run:
  "study_trials (final_state zero_run) =
     map (frozen (demo_env zero_score) demo_frame demo_frame [''milk''] [0]) [0, 1]"
  "checkpoint_trial ''db.gz'' (trace (final_state zero_run)) = None"
  "files (final_state zero_run) ''db.gz'' = None"
  "raised zero_run = Some RuntimeError"
  "files (final_state zero_run) ''fake_data_db.csv'' = None"
proof -
  have ret: "\<forall>n\<in>set (run_numbers (length ([]::frozen_trial list)) (nat 2)).
               trial_returns (demo_env zero_score) demo_frame [''milk''] [0] n"
    by (simp add: demo_trial_returns)
  have low: "\<forall>n\<in>set (run_numbers (length ([]::frozen_trial list)) (nat 2)).
               trial_score (demo_env zero_score) demo_frame demo_frame [''milk''] [0] n \<le> 0"
    by (simp add: demo_trial_score zero_score_def)
  note none = run_TimeGAN_fresh_none [where fs = no_files and num_samples = 500,
      OF demo_preprocess ret low zero_run_def]
  from none(1) show "study_trials (final_state zero_run) =
     map (frozen (demo_env zero_score) demo_frame demo_frame [''milk''] [0]) [0, 1]"
    by (simp add: demo_run_numbers)
  from none(3) show "checkpoint_trial ''db.gz'' (trace (final_state zero_run)) = None"
    by simp
  from none(4) show "files (final_state zero_run) ''db.gz'' = None"
    by (simp add: no_files_def)
  have "run_numbers (length ([]::frozen_trial list)) (nat 2) \<noteq> []"
    by (simp add: demo_run_numbers)
  from none(5) [OF this, unfolded demo_zero_plots]
  show "raised zero_run = Some RuntimeError"
    and "files (final_state zero_run) ''fake_data_db.csv'' = None"
    by (simp_all add: no_files_def)
qed

section \<open>C1: the checkpoint after the trials\<close>

text \<open>
  C1, as stated: after the trials of \<open>run_TimeGAN\<close> the checkpoint file is the one saved in
  the trial with the highest score of the run. A run in a fresh process with two trials
  that both score 0 has a trial with the highest score, yet no trial has written the
  checkpoint and the file does not exist: \<open>best_scores\<close> starts at 0 and only a strictly
  higher score is saved.
\<close>

theorem run_TimeGAN_checkpoint_counterexample:
  "map ft_value (study_trials (final_state zero_run)) = [Some 0, Some 0] \<and>
   checkpoint_trial ''db.gz'' (trace (final_state zero_run)) = None \<and>
   files (final_state zero_run) ''db.gz'' = None"
  by (simp add: demo_zero_run frozen_def demo_trial_score zero_score_def)

text \<open>
  C1, amended: in a fresh process, when every trial of the run returns and some trial of
  the run has a score above 0, the checkpoint file \<^verbatim>\<open><database_name>.gz\<close> exists after
  \<open>run_TimeGAN\<close> and is the one saved in the first trial of the run that has the highest
  score of the run; in every trial, \<open>objective\<close> writes the checkpoint exactly when the
  trial returns a score strictly above \<open>best_scores\<close>, the best score so far (0 at the
  start).
\<close>

theorem run_TimeGAN_checkpoint:
  assumes "preprocess_data E (real_data_loading E) database_name shift_numbers0 =
             (dataset_train, cols, dataset_val, dataset, shift_numbers)"
    and "\<forall>n\<in>set (run_numbers (length stored) (nat n_trials)).
           trial_returns E dataset_train cols shift_numbers n"
    and "\<exists>n\<in>set (run_numbers (length stored) (nat n_trials)).
           0 < trial_score E dataset_train dataset_val cols shift_numbers n"
    and "r = run_TimeGAN E num_samples n_trials database_name shift_numbers0
               (fresh_process fs stored)"
  shows "(\<exists>m. first_best (trial_score E dataset_train dataset_val cols shift_numbers)
                (run_numbers (length stored) (nat n_trials)) m \<and>
              checkpoint_trial (database_name @ ''.gz'') (trace (final_state r)) = Some m \<and>
              files (final_state r) (database_name @ ''.gz'') = Some JoblibTimegan) \<and>
         (\<forall>tr st. dumps (new_events st (state_after (objective E tr dataset_train dataset_val
                            num_samples cols database_name shift_numbers st))) =
                    (if trial_returns E dataset_train cols shift_numbers (number tr) \<and>
                        best_scores st <
                          trial_score E dataset_train dataset_val cols shift_numbers (number tr)
                     then [database_name @ ''.gz''] else []))"
proof -
  from run_TimeGAN_fresh_some [OF assms]
  have "\<exists>m. first_best (trial_score E dataset_train dataset_val cols shift_numbers)
                (run_numbers (length stored) (nat n_trials)) m \<and>
              checkpoint_trial (database_name @ ''.gz'') (trace (final_state r)) = Some m \<and>
              files (final_state r) (database_name @ ''.gz'') = Some JoblibTimegan"
    by blast
  then show ?thesis
    by (simp add: objective_dumps)
qed

theorem run_TimeGAN_checkpoint_witness:
  "checkpoint_trial ''db.gz'' (trace (final_state peak_run)) = Some 1 \<and>
   files (final_state peak_run) ''db.gz'' = Some JoblibTimegan"
proof -
  have ret: "\<forall>n\<in>set (run_numbers (length ([]::frozen_trial list)) (nat 3)).
               trial_returns (demo_env peak_score) demo_frame [''milk''] [0] n"
    by (simp add: demo_trial_returns)
  have pos: "\<exists>n\<in>set (run_numbers (length ([]::frozen_trial list)) (nat 3)).
               0 < trial_score (demo_env peak_score) demo_frame demo_frame [''milk''] [0] n"
    using demo_peak_positive by simp
  from run_TimeGAN_checkpoint [OF demo_preprocess ret pos peak_run_def]
  obtain m where
    m: "first_best (trial_score (demo_env peak_score) demo_frame demo_frame [''milk''] [0])
          (run_numbers (length ([]::frozen_trial list)) (nat 3)) m"
       "checkpoint_trial (''db'' @ ''.gz'') (trace (final_state peak_run)) = Some m"
       "files (final_state peak_run) (''db'' @ ''.gz'') = Some JoblibTimegan"
    by blast
  from m(1) have "m = 1" by (simp add: demo_peak_first_best)
  with m(2,3) show ?thesis by simp
qed

lemma frozen_fields:
  "ft_number (frozen E dataset_train dataset_val cols shift_numbers n) = n"
  "ft_params (frozen E dataset_train dataset_val cols shift_numbers n) = trial_suggestions E n"
  "ft_value (frozen E dataset_train dataset_val cols shift_numbers n) =
     Some (trial_score E dataset_train dataset_val cols shift_numbers n)"
  by (simp_all add: frozen_def)

section \<open>C2: the data generated after the trials\<close>

text \<open>
  C2, as stated: after the trials \<open>run_TimeGAN\<close> reloads the checkpoint, generates with the
  best trial's sequence length and hyperparameters and writes \<^verbatim>\<open>fake_data_<database_name>.csv\<close>.
  In the run with two trials of score 0 the study has a best trial, but the run raises
  before it loads a checkpoint, which no trial has written: with all values equal the plot
  of the parameter importances raises \<^verbatim>\<open>RuntimeError\<close>. No output file is written.
\<close>

theorem run_TimeGAN_generates_counterexample:
  "map ft_value (study_trials (final_state zero_run)) = [Some 0, Some 0] \<and>
   raised zero_run = Some RuntimeError \<and>
   files (final_state zero_run) ''db.gz'' = None \<and>
   files (final_state zero_run) ''fake_data_db.csv'' = None"
  by (simp add: demo_zero_run frozen_def demo_trial_score zero_score_def)

text \<open>
  C2, amended: in a fresh process, when every trial of the run returns and some trial of
  the run has a score above 0, let \<open>m\<close> be the first trial of the run with the highest score
  of the run. If one of the six plotting calls raises on the trials of the study,
  \<open>run_TimeGAN\<close> raises the same and writes no output file. Otherwise \<open>run_TimeGAN\<close> loads
  the checkpoint and calls the trainer on the full data set cut with the sequence length
  of trial \<open>m\<close> and with the hyperparameters of trial \<open>m\<close>; it writes the postprocessed
  output to \<^verbatim>\<open>fake_data_<database_name>.csv\<close> and returns, unless \<open>postprocess_data\<close> raises,
  and then \<open>run_TimeGAN\<close> raises the same. When the storage held no trial before the run,
  the study reports trial \<open>m\<close> as its best trial, with the same hyperparameters.
\<close>

theorem run_TimeGAN_generates:
  assumes "preprocess_data E (real_data_loading E) database_name shift_numbers0 =
             (dataset_train, cols, dataset_val, dataset, shift_numbers)"
    and "\<forall>n\<in>set (run_numbers (length stored) (nat n_trials)).
           trial_returns E dataset_train cols shift_numbers n"
    and "\<exists>n\<in>set (run_numbers (length stored) (nat n_trials)).
           0 < trial_score E dataset_train dataset_val cols shift_numbers n"
    and "r = run_TimeGAN E num_samples n_trials database_name shift_numbers0
               (fresh_process fs stored)"
  shows "\<exists>m. first_best (trial_score E dataset_train dataset_val cols shift_numbers)
               (run_numbers (length stored) (nat n_trials)) m \<and>
             (case first_plot_error E plot_names (study_trials (final_state r)) of
                Some e \<Rightarrow>
                  raised r = Some e \<and>
                  files (final_state r) (''fake_data_'' @ database_name @ ''.csv'') =
                    fs (''fake_data_'' @ database_name @ ''.csv'')
              | None \<Rightarrow>
                  JoblibLoad (database_name @ ''.gz'') \<in> set (trace (final_state r)) \<and>
                  (case postprocess_data ''eval''
                          (timegan E (cut_data E dataset (trial_seq_len E m))
                             (trial_parameters E m))
                          cols (trial_seq_len E m) shift_numbers of
                     Inl e \<Rightarrow> raised r = Some e
                   | Inr fake \<Rightarrow>
                       raised r = None \<and>
                       files (final_state r) (''fake_data_'' @ database_name @ ''.csv'') =
                         Some (CsvFile fake))) \<and>
             (stored = [] \<longrightarrow>
                (\<exists>best. best_trial (study_trials (final_state r)) = Inr best \<and>
                        ft_number best = m \<and>
                        map_of (ft_params best) = map_of (trial_parameters E m) \<and>
                        map_of (ft_params best) ''seq_len'' = Some (trial_seq_len E m)))"
proof -
  let ?sc = "trial_score E dataset_train dataset_val cols shift_numbers"
  let ?fr = "frozen E dataset_train dataset_val cols shift_numbers"
  let ?ns = "run_numbers (length stored) (nat n_trials)"
  have trials: "study_trials (final_state r) = stored @ map ?fr ?ns"
    using run_TimeGAN_fresh [OF assms(1) refl refl refl assms(2) assms(4)] by blast
  from run_TimeGAN_fresh_some [OF assms] obtain m where
    m: "first_best ?sc ?ns m"
       "case first_plot_error E plot_names (stored @ map ?fr ?ns) of
          Some e \<Rightarrow>
            raised r = Some e \<and>
            files (final_state r) (''fake_data_'' @ database_name @ ''.csv'') =
              fs (''fake_data_'' @ database_name @ ''.csv'')
        | None \<Rightarrow>
            JoblibLoad (database_name @ ''.gz'') \<in> set (trace (final_state r)) \<and>
            (case postprocess_data ''eval''
                    (timegan E (cut_data E dataset (trial_seq_len E m)) (trial_parameters E m))
                    cols (trial_seq_len E m) shift_numbers of
               Inl e \<Rightarrow> raised r = Some e
             | Inr fake \<Rightarrow>
                 raised r = None \<and>
                 files (final_state r) (''fake_data_'' @ database_name @ ''.csv'') =
                   Some (CsvFile fake))"
    by blast
  have "\<exists>best. best_trial (study_trials (final_state r)) = Inr best \<and>
                ft_number best = m \<and>
                map_of (ft_params best) = map_of (trial_parameters E m) \<and>
                map_of (ft_params best) ''seq_len'' = Some (trial_seq_len E m)"
    if "stored = []"
  proof -
    have "best_trial (map ?fr ?ns) = Inr (?fr m)"
      by (rule best_trial_run [OF m(1)]) (simp add: frozen_def)
    moreover have "map_of (trial_parameters E m) ''seq_len'' = Some (trial_seq_len E m)"
      by (simp add: trial_parameters_def)
    ultimately show ?thesis
      using that trials by (simp add: frozen_fields map_of_trial_parameters)
  qed
  with m show ?thesis unfolding trials by blast
qed

theorem run_TimeGAN_generates_witness:
  "raised peak_run = None \<and>
   JoblibLoad ''db.gz'' \<in> set (trace (final_state peak_run)) \<and>
   files (final_state peak_run) ''fake_data_db.csv'' =
     Some (CsvFile \<lparr>df_columns = [''milk''], df_rows = [[12]]\<rparr>)"
proof -
  have ret: "\<forall>n\<in>set (run_numbers (length ([]::frozen_trial list)) (nat 3)).
               trial_returns (demo_env peak_score) demo_frame [''milk''] [0] n"
    by (simp add: demo_trial_returns)
  have pos: "\<exists>n\<in>set (run_numbers (length ([]::frozen_trial list)) (nat 3)).
               0 < trial_score (demo_env peak_score) demo_frame demo_frame [''milk''] [0] n"
    using demo_peak_positive by simp
  have trials: "study_trials (final_state peak_run) =
      [] @ map (frozen (demo_env peak_score) demo_frame demo_frame [''milk''] [0])
             (run_numbers (length ([]::frozen_trial list)) (nat 3))"
    using run_TimeGAN_fresh [where fs = no_files and num_samples = 500,
        OF demo_preprocess refl refl refl ret peak_run_def]
    by blast
  from run_TimeGAN_generates [OF demo_preprocess ret pos peak_run_def,
      unfolded trials demo_peak_plots option.case]
  obtain m where
    m: "first_best (trial_score (demo_env peak_score) demo_frame demo_frame [''milk''] [0])
          (run_numbers (length ([]::frozen_trial list)) (nat 3)) m"
       "JoblibLoad (''db'' @ ''.gz'') \<in> set (trace (final_state peak_run))"
       "case postprocess_data ''eval''
               (timegan (demo_env peak_score)
                  (cut_data (demo_env peak_score) demo_frame (trial_seq_len (demo_env peak_score) m))
                  (trial_parameters (demo_env peak_score) m))
               [''milk''] (trial_seq_len (demo_env peak_score) m) [0] of
          Inl e \<Rightarrow> raised peak_run = Some e
        | Inr fake \<Rightarrow>
            raised peak_run = None \<and>
            files (final_state peak_run) (''fake_data_'' @ ''db'' @ ''.csv'') =
              Some (CsvFile fake)"
    by blast
  from m(1) have m1: "m = 1" by (simp add: demo_peak_first_best)
  have "map_of (trial_parameters (demo_env peak_score) 1) ''hidden_dim'' = Some (PyInt 12)"
    by (simp add: trial_parameters_def demo_pick_hidden demo_hidden_def)
  then have "timegan (demo_env peak_score)
               (cut_data (demo_env peak_score) demo_frame (trial_seq_len (demo_env peak_score) 1))
               (trial_parameters (demo_env peak_score) 1) = [[[12]]]"
    by (simp add: demo_env_def)
  then have "postprocess_data ''eval''
               (timegan (demo_env peak_score)
                  (cut_data (demo_env peak_score) demo_frame (trial_seq_len (demo_env peak_score) 1))
                  (trial_parameters (demo_env peak_score) 1))
               [''milk''] (trial_seq_len (demo_env peak_score) 1) [0] =
             Inr \<lparr>df_columns = [''milk''], df_rows = [[12]]\<rparr>"
    by (simp add: postprocess_data_def shape0_def shape1_def pd_DataFrame_def)
  with m(2,3) m1 show ?thesis by simp
qed

section \<open>C9: best\_scores and the checkpoint\<close>

text \<open>
  C9: \<open>best_scores\<close> is 0 in a fresh process and no trial lowers it, whether the trial
  returns or raises. A trial that returns the score \<open>v\<close> writes the checkpoint and sets
  \<open>objective.seq_len\<close> and \<open>objective.parameters\<close> (and \<open>best_scores\<close>) if \<open>v\<close> is strictly
  above \<open>best_scores\<close>, and otherwise writes no checkpoint and leaves the files, the two
  attributes and \<open>best_scores\<close> as they are. So, \<open>best_scores\<close> being at least 0, a trial
  with a score of 0 or less writes no checkpoint; and a run of \<open>run_TimeGAN\<close> in a fresh
  process in which no trial scores above 0 leaves \<open>best_scores\<close> at 0 and the checkpoint
  file as it was, with no trial as its writer.
\<close>

theorem best_scores_checkpoint:
  "best_scores (fresh_process fs stored) = 0 \<and>
   (\<forall>tr st. best_scores st \<le>
      best_scores (state_after (objective E tr dataset_train dataset_val num_samples cols
                                  database_name shift_numbers st))) \<and>
   (\<forall>tr st v tr' st'.
      objective E tr dataset_train dataset_val num_samples cols database_name shift_numbers st =
        Inr (v, tr', st') \<longrightarrow>
      (if best_scores st < v
       then dumps (new_events st st') = [database_name @ ''.gz''] \<and>
            files st' = (files st)(database_name @ ''.gz'' \<mapsto> JoblibTimegan) \<and>
            objective_seq_len st' = Some (trial_seq_len E (number tr)) \<and>
            objective_parameters st' = Some (trial_parameters E (number tr)) \<and>
            best_scores st' = v
       else dumps (new_events st st') = [] \<and>
            files st' = files st \<and>
            objective_seq_len st' = objective_seq_len st \<and>
            objective_parameters st' = objective_parameters st \<and>
            best_scores st' = best_scores st) \<and>
      (0 \<le> best_scores st \<longrightarrow> v \<le> 0 \<longrightarrow>
         dumps (new_events st st') = [] \<and> files st' = files st)) \<and>
   (preprocess_data E (real_data_loading E) database_name shift_numbers0 =
      (dataset_train, cols, dataset_val, dataset, shift_numbers) \<longrightarrow>
    (\<forall>n\<in>set (run_numbers (length stored) (nat n_trials)).
       trial_returns E dataset_train cols shift_numbers n \<and>
       trial_score E dataset_train dataset_val cols shift_numbers n \<le> 0) \<longrightarrow>
    best_scores (final_state (run_TimeGAN E num_samples n_trials database_name shift_numbers0
                                (fresh_process fs stored))) = 0 \<and>
    checkpoint_trial (database_name @ ''.gz'')
      (trace (final_state (run_TimeGAN E num_samples n_trials database_name shift_numbers0
                             (fresh_process fs stored)))) = None \<and>
    files (final_state (run_TimeGAN E num_samples n_trials database_name shift_numbers0
                          (fresh_process fs stored))) (database_name @ ''.gz'') =
      fs (database_name @ ''.gz''))"
proof (intro conjI allI impI)
  show "best_scores (fresh_process fs stored) = 0"
    by (simp add: fresh_process_def)
next
  fix tr st
  show "best_scores st \<le>
      best_scores (state_after (objective E tr dataset_train dataset_val num_samples cols
                                  database_name shift_numbers st))"
    by (simp add: objective_unfold state_after_def trial_state_def emits_fields
          split: sum.splits)
next
  fix tr st v tr' st'
  assume ret: "objective E tr dataset_train dataset_val num_samples cols database_name
                 shift_numbers st = Inr (v, tr', st')"
  then obtain fake where fake: "trial_fake E dataset_train cols shift_numbers (number tr) = Inr fake"
    by (auto simp: objective_unfold split: sum.splits)
  from ret fake have v: "v = evaluate E fake dataset_val"
    by (simp add: objective_unfold)
  from ret have st': "st' = state_after (objective E tr dataset_train dataset_val num_samples
                                           cols database_name shift_numbers st)"
    by (simp add: state_after_def)
  have d: "dumps (new_events st st') =
             (if best_scores st < v then [database_name @ ''.gz''] else [])"
    unfolding st' objective_new_events
    using fake v by (simp add: dumps_append trial_events_observed)
  have fields: "files st' = (if best_scores st < v
                   then (files st)(database_name @ ''.gz'' \<mapsto> JoblibTimegan) else files st)"
      "objective_seq_len st' = (if best_scores st < v then Some (trial_seq_len E (number tr))
                                else objective_seq_len st)"
      "objective_parameters st' = (if best_scores st < v
                                   then Some (trial_parameters E (number tr))
                                   else objective_parameters st)"
      "best_scores st' = (if best_scores st < v then v else best_scores st)"
    using ret fake v
    by (auto simp: objective_unfold trial_state_def emits_fields)
  show "if best_scores st < v
       then dumps (new_events st st') = [database_name @ ''.gz''] \<and>
            files st' = (files st)(database_name @ ''.gz'' \<mapsto> JoblibTimegan) \<and>
            objective_seq_len st' = Some (trial_seq_len E (number tr)) \<and>
            objective_parameters st' = Some (trial_parameters E (number tr)) \<and>
            best_scores st' = v
       else dumps (new_events st st') = [] \<and>
            files st' = files st \<and>
            objective_seq_len st' = objective_seq_len st \<and>
            objective_parameters st' = objective_parameters st \<and>
            best_scores st' = best_scores st"
    using d fields by simp
  {
    assume "0 \<le> best_scores st" and "v \<le> 0"
    then have "\<not> best_scores st < v" by simp
    with d fields show "dumps (new_events st st') = []" and "files st' = files st"
      by simp_all
  }
next
  assume pre: "preprocess_data E (real_data_loading E) database_name shift_numbers0 =
      (dataset_train, cols, dataset_val, dataset, shift_numbers)"
    and all: "\<forall>n\<in>set (run_numbers (length stored) (nat n_trials)).
       trial_returns E dataset_train cols shift_numbers n \<and>
       trial_score E dataset_train dataset_val cols shift_numbers n \<le> 0"
  from all have ret: "\<forall>n\<in>set (run_numbers (length stored) (nat n_trials)).
       trial_returns E dataset_train cols shift_numbers n"
    and low: "\<forall>n\<in>set (run_numbers (length stored) (nat n_trials)).
       trial_score E dataset_train dataset_val cols shift_numbers n \<le> 0"
    by blast+
  note none = run_TimeGAN_fresh_none [OF pre ret low refl]
  from none(2) show "best_scores (final_state (run_TimeGAN E num_samples n_trials database_name
     shift_numbers0 (fresh_process fs stored))) = 0" .
  from none(3) show "checkpoint_trial (database_name @ ''.gz'')
      (trace (final_state (run_TimeGAN E num_samples n_trials database_name shift_numbers0
                             (fresh_process fs stored)))) = None" .
  from none(4) show "files (final_state (run_TimeGAN E num_samples n_trials database_name
      shift_numbers0 (fresh_process fs stored))) (database_name @ ''.gz'') =
      fs (database_name @ ''.gz'')" .
qed

theorem best_scores_checkpoint_witness:
  "best_scores (state_after (objective (demo_env peak_score) \<lparr>number = 1, params = []\<rparr>
      demo_frame demo_frame 500 [''milk''] ''db'' [0] (fresh_process no_files []))) = 2 \<and>
   best_scores (final_state zero_run) = 0 \<and>
   checkpoint_trial ''db.gz'' (trace (final_state zero_run)) = None"
proof -
  note inst = best_scores_checkpoint [where E = "demo_env peak_score" and fs = no_files
      and stored = "[]" and dataset_train = demo_frame and dataset_val = demo_frame
      and num_samples = 500 and cols = "[''milk'']" and database_name = "''db''"
      and shift_numbers = "[0]"]
  note inst0 = best_scores_checkpoint [where E = "demo_env zero_score" and fs = no_files
      and stored = "[]" and dataset_train = demo_frame and dataset_val = demo_frame
      and num_samples = 500 and cols = "[''milk'']" and database_name = "''db''"
      and shift_numbers = "[0]" and shift_numbers0 = "[0]" and dataset = demo_frame
      and n_trials = 2]
  define r where "r = objective (demo_env peak_score) \<lparr>number = 1, params = []\<rparr>
      demo_frame demo_frame 500 [''milk''] ''db'' [0] (fresh_process no_files [])"
  have "evaluate (demo_env peak_score) \<lparr>df_columns = [''milk''], df_rows = [[real_of_int (demo_hidden 1)]]\<rparr>
          demo_frame = 2"
    by (simp add: demo_env_def demo_hidden_def peak_score_def)
  then have "\<exists>tr' st'. r = Inr (2, tr', st')"
    by (simp add: r_def objective_unfold demo_trial_fake)
  then obtain tr' st' where ret: "r = Inr (2, tr', st')" by blast
  from inst [THEN conjunct2, THEN conjunct2, THEN conjunct1, rule_format, OF ret [unfolded r_def]]
  have "best_scores st' = 2"
    by (simp add: fresh_process_def)
  then have 1: "best_scores (state_after r) = 2"
    by (simp add: ret state_after_def)
  from inst0 [THEN conjunct2, THEN conjunct2, THEN conjunct2, rule_format,
      OF demo_preprocess]
  have "best_scores (final_state zero_run) = 0 \<and>
        checkpoint_trial ''db.gz'' (trace (final_state zero_run)) = None"
    by (simp add: zero_run_def demo_trial_returns demo_trial_score zero_score_def)
  with 1 show ?thesis by (simp add: r_def)
qed

end
